theory Spec2Isabelle
  imports Main "HOL-Library.Word"
begin

section \<open>Values, faults and library collaborators\<close>

text \<open>
  The server side of the application (the authentication module \<^verbatim>\<open>jwt-auth\<close> and the
  route table \<^verbatim>\<open>registerRoutes\<close>) is embedded as pure functions.

  \<^item> JavaScript strings are \<^typ>\<open>string\<close>: lists of 8-bit characters, read as the code
    units U+0000 .. U+00FF.
  \<^item> A value that may be \<^verbatim>\<open>undefined\<close> is an \<^typ>\<open>'a option\<close>.
  \<^item> A \<^verbatim>\<open>throw\<close> (or a rejected promise that is awaited) is the \<open>Inl\<close> branch of a
    sum \<open>fault + 'a\<close>; \<^verbatim>\<open>try { .. } catch\<close> is a case distinction on that sum.
  \<^item> Node buffers are lists of bytes.
  \<^item> The clock, the random generator, \<^verbatim>\<open>scrypt\<close>, the JWT library, the storage
    module, the e-mail module and the schema validators are parameters.
\<close>

type_synonym byte = "8 word"

datatype fault =
    TypeError string      \<comment> \<open>an \<^verbatim>\<open>Error\<close> instance thrown by the runtime on a wrong argument type\<close>
  | RangeError string     \<comment> \<open>an \<^verbatim>\<open>Error\<close> instance thrown by \<^verbatim>\<open>timingSafeEqual\<close>\<close>
  | ZodError string       \<comment> \<open>a schema validation failure (\<^verbatim>\<open>instanceof ZodError\<close>), with its message\<close>
  | Error string          \<comment> \<open>any other \<^verbatim>\<open>Error\<close> instance, with its message\<close>
  | NonError              \<comment> \<open>a thrown value that is not an \<^verbatim>\<open>Error\<close> instance\<close>

text \<open>
  The JavaScript numbers that \<^verbatim>\<open>parseInt\<close> can return: \<^verbatim>\<open>NaN\<close>, an integer that is a double,
  and the two infinities. Negative zero is not told apart from zero.
\<close>

datatype number = NaN | Finite int | Infinity | NegativeInfinity

subsection \<open>String and buffer primitives\<close>

text \<open>\<^verbatim>\<open>s.split(c)\<close> for a one-character separator: never empty, \<^verbatim>\<open>''.split('.') = ['']\<close>.\<close>

fun split_on :: "char \<Rightarrow> string \<Rightarrow> string list" where
  "split_on c [] = [[]]"
| "split_on c (x # xs) =
     (if x = c then [] # split_on c xs
      else (case split_on c xs of [] \<Rightarrow> [[x]] | p # ps \<Rightarrow> (x # p) # ps))"

text \<open>\<^verbatim>\<open>xs[i]\<close>: \<^verbatim>\<open>undefined\<close> out of range.\<close>

definition index :: "'a list \<Rightarrow> nat \<Rightarrow> 'a option" where
  "index xs i = (if i < length xs then Some (xs ! i) else None)"

text \<open>\<^verbatim>\<open>xs.join(sep)\<close> on a list of strings.\<close>

fun join :: "string \<Rightarrow> string list \<Rightarrow> string" where
  "join sep [] = []"
| "join sep [x] = x"
| "join sep (x # y # ys) = x @ sep @ join sep (y # ys)"

text \<open>\<^verbatim>\<open>buf.toString('hex')\<close>: two lower-case digits per byte.\<close>

definition hexdigit :: "nat \<Rightarrow> char" where
  "hexdigit n = ''0123456789abcdef'' ! (n mod 16)"

definition hex_of_byte :: "byte \<Rightarrow> string" where
  "hex_of_byte b = [hexdigit (unat b div 16), hexdigit (unat b mod 16)]"

definition toString_hex :: "byte list \<Rightarrow> string" where
  "toString_hex buf = concat (map hex_of_byte buf)"

text \<open>
  \<^verbatim>\<open>Buffer.from(s, 'hex')\<close>: decodes pairs of hexadecimal digits (either case) and stops
  at the first pair that is not one; a trailing single character is dropped. On
  \<^verbatim>\<open>undefined\<close> it throws a \<^verbatim>\<open>TypeError\<close>.
\<close>

definition hexval :: "char \<Rightarrow> nat option" where
  "hexval c =
     (let n = (of_char c :: nat) in
      if 48 \<le> n \<and> n \<le> 57 then Some (n - 48)
      else if 97 \<le> n \<and> n \<le> 102 then Some (n - 87)
      else if 65 \<le> n \<and> n \<le> 70 then Some (n - 55)
      else None)"

fun hex_decode :: "string \<Rightarrow> byte list" where
  "hex_decode (a # b # rest) =
     (case hexval a of
        None \<Rightarrow> []
      | Some h \<Rightarrow>
          (case hexval b of
             None \<Rightarrow> []
           | Some l \<Rightarrow> word_of_nat (16 * h + l) # hex_decode rest))"
| "hex_decode _ = []"

definition Buffer_from_hex :: "string option \<Rightarrow> fault + byte list" where
  "Buffer_from_hex s =
     (case s of
        None \<Rightarrow> Inl (TypeError ''The first argument must be of type string'')
      | Some t \<Rightarrow> Inr (hex_decode t))"

subsection \<open>Node's crypto module\<close>

text \<open>
  \<^verbatim>\<open>scryptAsync = promisify(scrypt)\<close>. The library function is the parameter
  \<open>scrypt password salt keylen\<close>: it resolves to the derived key or rejects (a memory
  limit, an allocation failure). What the wrapper adds is the argument check: a salt that
  is \<^verbatim>\<open>undefined\<close> is rejected with a \<^verbatim>\<open>TypeError\<close> before anything is derived.
\<close>

type_synonym scrypt = "string \<Rightarrow> string \<Rightarrow> nat \<Rightarrow> fault + byte list"

definition scryptAsync :: "scrypt \<Rightarrow> string \<Rightarrow> string option \<Rightarrow> nat \<Rightarrow> fault + byte list" where
  "scryptAsync scrypt password salt keylen =
     (case salt of
        None \<Rightarrow> Inl (TypeError ''The salt argument must be of type string'')
      | Some s \<Rightarrow> scrypt password s keylen)"

text \<open>
  A library that never rejects is given by its key-derivation function alone:
  \<open>resolving kdf\<close> always resolves, to \<open>kdf password salt keylen\<close>.
\<close>

type_synonym kdf = "string \<Rightarrow> string \<Rightarrow> nat \<Rightarrow> byte list"

definition resolving :: "kdf \<Rightarrow> scrypt" where
  "resolving kdf password salt keylen = Inr (kdf password salt keylen)"

text \<open>\<^verbatim>\<open>timingSafeEqual(a, b)\<close> throws a \<^verbatim>\<open>RangeError\<close> on buffers of different lengths.\<close>

definition timingSafeEqual :: "byte list \<Rightarrow> byte list \<Rightarrow> fault + bool" where
  "timingSafeEqual a b =
     (if length a \<noteq> length b
      then Inl (RangeError ''Input buffers must have the same byte length'')
      else Inr (a = b))"

section \<open>Password hasher\<close>

text \<open>
  \<^verbatim>\<open>hashPassword\<close>: \<open>rand\<close> is the result of \<^verbatim>\<open>randomBytes(16)\<close>.
\<close>

definition hashPassword :: "scrypt \<Rightarrow> byte list \<Rightarrow> string \<Rightarrow> fault + string" where
  "hashPassword scrypt rand password =
     (let salt = toString_hex rand in
      case scryptAsync scrypt password (Some salt) 64 of
        Inl e \<Rightarrow> Inl e
      | Inr buf \<Rightarrow> Inr (toString_hex buf @ ''.'' @ salt))"

text \<open>
  \<^verbatim>\<open>comparePasswords\<close>: \<^verbatim>\<open>const [hashed, salt] = stored.split('.')\<close> binds the first two
  pieces, \<^verbatim>\<open>undefined\<close> where there is none. No \<^verbatim>\<open>try\<close> surrounds the body.
\<close>

definition comparePasswords :: "scrypt \<Rightarrow> string \<Rightarrow> string \<Rightarrow> fault + bool" where
  "comparePasswords scrypt supplied stored =
     (let parts = split_on CHR ''.'' stored;
          hashed = index parts 0;
          salt = index parts 1
      in case Buffer_from_hex hashed of
           Inl e \<Rightarrow> Inl e
         | Inr hashedBuf \<Rightarrow>
             (case scryptAsync scrypt supplied salt 64 of
                Inl e \<Rightarrow> Inl e
              | Inr suppliedBuf \<Rightarrow> timingSafeEqual hashedBuf suppliedBuf))"

section \<open>Token service\<close>

record user =
  id_of :: int
  username :: string
  password :: string

record token_payload =
  userId :: int
  payload_username :: string

datatype jwt_error = TokenExpiredError | JsonWebTokenError

text \<open>
  The \<^verbatim>\<open>jsonwebtoken\<close> library. \<open>jwt_sign payload secret expiresIn now\<close> is
  \<^verbatim>\<open>jwt.sign(payload, secret, {expiresIn})\<close> called at clock time \<open>now\<close> (seconds);
  \<open>jwt_verify token secret now\<close> is \<^verbatim>\<open>jwt.verify(token, secret)\<close>, which throws where
  the model returns \<open>Inl\<close>. The result of \<open>jwt_verify\<close> is read at the type the source
  casts it to, \<^verbatim>\<open>{ userId: number; username: string }\<close>.
\<close>

record jwt_lib =
  jwt_sign :: "token_payload \<Rightarrow> string \<Rightarrow> nat \<Rightarrow> nat \<Rightarrow> string"
  jwt_verify :: "string \<Rightarrow> string \<Rightarrow> nat \<Rightarrow> jwt_error + token_payload"

text \<open>
  \<^verbatim>\<open>const JWT_SECRET = process.env.JWT_SECRET || 'your-super-secret-jwt-key'\<close>:
  an unset or empty variable gives the default.
\<close>

definition JWT_SECRET :: "string option \<Rightarrow> string" where
  "JWT_SECRET env =
     (case env of
        None \<Rightarrow> ''your-super-secret-jwt-key''
      | Some s \<Rightarrow> if s = [] then ''your-super-secret-jwt-key'' else s)"

text \<open>\<^verbatim>\<open>JWT_EXPIRES_IN = '7d'\<close>, in seconds.\<close>

definition JWT_EXPIRES_IN :: nat where
  "JWT_EXPIRES_IN = 7 * 24 * 60 * 60"

definition generateToken :: "jwt_lib \<Rightarrow> string \<Rightarrow> nat \<Rightarrow> user \<Rightarrow> string" where
  "generateToken J secret now u =
     jwt_sign J \<lparr>userId = id_of u, payload_username = username u\<rparr> secret JWT_EXPIRES_IN now"

text \<open>
  \<^verbatim>\<open>verifyToken\<close>: the whole body is inside \<^verbatim>\<open>try\<close>, every throw becomes \<^verbatim>\<open>null\<close>.
  The result type keeps the fault branch, so that "does not throw" is a statement
  about the function and not about its type.
\<close>

definition verifyToken :: "jwt_lib \<Rightarrow> string \<Rightarrow> nat \<Rightarrow> string \<Rightarrow> fault + token_payload option" where
  "verifyToken J secret now token =
     (case jwt_verify J token secret now of
        Inr decoded \<Rightarrow> Inr (Some decoded)
      | Inl error \<Rightarrow> Inr None)"

section \<open>Storage collaborator\<close>

text \<open>
  The row types of \<^verbatim>\<open>@shared/schema\<close>, with the fields the server code reads. A
  submission's \<^verbatim>\<open>companyCode\<close> may be \<^verbatim>\<open>null\<close>; its \<^verbatim>\<open>coreValues\<close> is \<open>None\<close> when the
  stored value is not an array (the export handler tests \<^verbatim>\<open>Array.isArray\<close>);
  \<^verbatim>\<open>createdAt\<close> is a time stamp in milliseconds.
\<close>

record insert_user =
  ins_username :: string
  ins_password :: string

record leadership_value =
  value_id :: int
  value_name :: string
  value_description :: string

record insert_leadership_value =
  ins_value :: string
  ins_description :: string

record submission =
  submission_id :: int
  name :: string
  email :: string
  companyCode :: "string option"
  coreValues :: "string list option"
  createdAt :: int

record insert_submission =
  ins_name :: string
  ins_email :: string
  ins_companyCode :: "string option"
  ins_coreValues :: "string list"

text \<open>
  The \<^verbatim>\<open>storage\<close> object, as the calls the server code makes on it. Every call may
  throw; a call that writes returns the new state, and a call that throws returns none:
  what a failed write may have left behind is not part of the model. The identifier of a
  leadership value is passed as the number that \<^verbatim>\<open>parseInt\<close> returned.
\<close>

record 'st storage =
  getUser :: "'st \<Rightarrow> int \<Rightarrow> fault + user option"
  getUserByUsername :: "'st \<Rightarrow> string \<Rightarrow> fault + user option"
  createUser :: "'st \<Rightarrow> insert_user \<Rightarrow> fault + (user \<times> 'st)"
  getAllLeadershipValues :: "'st \<Rightarrow> fault + leadership_value list"
  getLeadershipValueById :: "'st \<Rightarrow> number \<Rightarrow> fault + leadership_value option"
  createLeadershipValue :: "'st \<Rightarrow> insert_leadership_value \<Rightarrow> fault + (leadership_value \<times> 'st)"
  updateLeadershipValue ::
    "'st \<Rightarrow> number \<Rightarrow> insert_leadership_value \<Rightarrow> fault + (leadership_value option \<times> 'st)"
  deleteLeadershipValue :: "'st \<Rightarrow> number \<Rightarrow> fault + 'st"
  createSubmission :: "'st \<Rightarrow> insert_submission \<Rightarrow> fault + (submission \<times> 'st)"
  getAllSubmissions :: "'st \<Rightarrow> fault + submission list"
  getSubmissionsByCompanyCode :: "'st \<Rightarrow> string \<Rightarrow> fault + submission list"
  getUniqueCompanyCodes :: "'st \<Rightarrow> fault + string list"

section \<open>HTTP responses\<close>

text \<open>
  A JSON value as \<^verbatim>\<open>res.json\<close> receives it. Rows handed to \<^verbatim>\<open>res.json\<close> whole are kept as
  leaves (\<open>JUser\<close>, \<open>JLeadershipValue\<close>, \<open>JSubmission\<close>). A key whose value is
  \<^verbatim>\<open>undefined\<close> is left out of the object, as \<^verbatim>\<open>JSON.stringify\<close> does.
\<close>

datatype json =
    JNull
  | JBool bool
  | JNum int
  | JStr string
  | JArr "json list"
  | JObj "(string \<times> json) list"
  | JUser user
  | JLeadershipValue leadership_value
  | JSubmission submission

datatype body = JsonBody json | TextBody string

text \<open>The status, the headers the handler sets itself, and the body.\<close>

record response =
  status :: nat
  headers :: "(string \<times> string) list"
  body :: body

definition json_reply :: "nat \<Rightarrow> json \<Rightarrow> response" where
  "json_reply code j = \<lparr>status = code, headers = [], body = JsonBody j\<rparr>"

text \<open>\<^verbatim>\<open>res.status(code).json({ message: m })\<close>\<close>

definition message_reply :: "nat \<Rightarrow> string \<Rightarrow> response" where
  "message_reply code m = json_reply code (JObj [(''message'', JStr m)])"

section \<open>Auth middleware\<close>

datatype middleware_outcome =
    Respond response     \<comment> \<open>\<^verbatim>\<open>return res.status(..).json({ message })\<close>: the handler is not reached\<close>
  | Next user            \<comment> \<open>\<^verbatim>\<open>req.user = user; next()\<close>\<close>

text \<open>
  \<^verbatim>\<open>const token = authHeader && authHeader.split(' ')[1]\<close>: \<^verbatim>\<open>undefined\<close> for a missing
  header, the (empty) header itself when it is empty, else the second space-separated
  piece or \<^verbatim>\<open>undefined\<close>.
\<close>

definition bearer_token :: "string option \<Rightarrow> string option" where
  "bearer_token authHeader =
     (case authHeader of
        None \<Rightarrow> None
      | Some h \<Rightarrow> if h = [] then Some h else index (split_on CHR '' '' h) 1)"

text \<open>
  \<^verbatim>\<open>if (!token)\<close> holds for \<^verbatim>\<open>undefined\<close> and for the empty string. \<^verbatim>\<open>next()\<close> hands the
  request to the route handler; Express catches what a handler throws, so the call does
  not throw into the middleware's \<^verbatim>\<open>catch\<close>.
\<close>

definition authenticateToken ::
  "'st storage \<Rightarrow> jwt_lib \<Rightarrow> string \<Rightarrow> nat \<Rightarrow> 'st \<Rightarrow> string option \<Rightarrow>
     fault + middleware_outcome" where
  "authenticateToken S J secret now st authHeader =
     (case bearer_token authHeader of
        None \<Rightarrow> Inr (Respond (message_reply 401 ''Access token required''))
      | Some token \<Rightarrow>
          if token = [] then Inr (Respond (message_reply 401 ''Access token required''))
          else
            (case verifyToken J secret now token of
               Inl e \<Rightarrow> Inl e
             | Inr None \<Rightarrow> Inr (Respond (message_reply 403 ''Invalid or expired token''))
             | Inr (Some decoded) \<Rightarrow>
                 (case getUser S st (userId decoded) of
                    Inl error \<Rightarrow> Inr (Respond (message_reply 500 ''Authentication error''))
                  | Inr None \<Rightarrow> Inr (Respond (message_reply 403 ''User not found''))
                  | Inr (Some u) \<Rightarrow> Inr (Next u))))"

section \<open>Account service\<close>

record auth_result =
  result_user :: user
  result_token :: string

text \<open>
  \<^verbatim>\<open>loginUser\<close>: \<open>try_login\<close> is the body of the \<^verbatim>\<open>try\<close> block, \<open>loginUser\<close> adds the
  \<^verbatim>\<open>catch\<close>, which logs and returns \<^verbatim>\<open>null\<close>. \<^verbatim>\<open>||\<close> does not evaluate
  \<^verbatim>\<open>comparePasswords\<close> when there is no user.
\<close>

definition try_login ::
  "'st storage \<Rightarrow> jwt_lib \<Rightarrow> scrypt \<Rightarrow> string \<Rightarrow> nat \<Rightarrow> 'st \<Rightarrow> string \<Rightarrow> string \<Rightarrow>
     fault + auth_result option" where
  "try_login S J scrypt secret now st uname pw =
     (case getUserByUsername S st uname of
        Inl e \<Rightarrow> Inl e
      | Inr None \<Rightarrow> Inr None
      | Inr (Some u) \<Rightarrow>
          (case comparePasswords scrypt pw (password u) of
             Inl e \<Rightarrow> Inl e
           | Inr ok \<Rightarrow>
               if \<not> ok then Inr None
               else Inr (Some \<lparr>result_user = u, result_token = generateToken J secret now u\<rparr>)))"

definition loginUser ::
  "'st storage \<Rightarrow> jwt_lib \<Rightarrow> scrypt \<Rightarrow> string \<Rightarrow> nat \<Rightarrow> 'st \<Rightarrow> string \<Rightarrow> string \<Rightarrow>
     fault + auth_result option" where
  "loginUser S J scrypt secret now st uname pw =
     (case try_login S J scrypt secret now st uname pw of
        Inr r \<Rightarrow> Inr r
      | Inl error \<Rightarrow> Inr None)"

text \<open>
  \<^verbatim>\<open>registerUser\<close> returns its result together with the storage state it leaves, which
  after a throwing call is taken to be the state before it.
\<close>

definition try_register ::
  "'st storage \<Rightarrow> jwt_lib \<Rightarrow> scrypt \<Rightarrow> string \<Rightarrow> nat \<Rightarrow> byte list \<Rightarrow> 'st \<Rightarrow>
     string \<Rightarrow> string \<Rightarrow> fault + (auth_result option \<times> 'st)" where
  "try_register S J scrypt secret now rand st uname pw =
     (case getUserByUsername S st uname of
        Inl e \<Rightarrow> Inl e
      | Inr (Some existingUser) \<Rightarrow> Inr (None, st)
      | Inr None \<Rightarrow>
          (case hashPassword scrypt rand pw of
             Inl e \<Rightarrow> Inl e
           | Inr hashedPassword \<Rightarrow>
               (case createUser S st \<lparr>ins_username = uname, ins_password = hashedPassword\<rparr> of
                  Inl e \<Rightarrow> Inl e
                | Inr (u, st') \<Rightarrow>
                    Inr (Some \<lparr>result_user = u, result_token = generateToken J secret now u\<rparr>,
                         st'))))"

definition registerUser ::
  "'st storage \<Rightarrow> jwt_lib \<Rightarrow> scrypt \<Rightarrow> string \<Rightarrow> nat \<Rightarrow> byte list \<Rightarrow> 'st \<Rightarrow>
     string \<Rightarrow> string \<Rightarrow> fault + (auth_result option \<times> 'st)" where
  "registerUser S J scrypt secret now rand st uname pw =
     (case try_register S J scrypt secret now rand st uname pw of
        Inr r \<Rightarrow> Inr r
      | Inl error \<Rightarrow> Inr (None, st))"

section \<open>Route handlers\<close>

subsection \<open>Collaborators of the route table\<close>

record email_attachment =
  att_filename :: string
  att_content :: "byte list"

record email_message =
  mail_to :: string
  mail_subject :: string
  mail_html :: string
  mail_attachments :: "email_attachment list"

text \<open>What \<^verbatim>\<open>sendEmail\<close> resolves to: \<^verbatim>\<open>{ success, error }\<close>, \<^verbatim>\<open>error\<close> possibly \<^verbatim>\<open>undefined\<close>.\<close>

record email_result =
  success :: bool
  send_error :: "json option"

text \<open>
  Everything \<^verbatim>\<open>registerRoutes\<close> closes over: the storage object, the JWT library and
  secret, the key-derivation function, the two Zod schemas (\<^verbatim>\<open>schema.parse\<close>) with
  \<^verbatim>\<open>fromZodError(e).message\<close>, the e-mail module, \<^verbatim>\<open>extractFirstName\<close>, base64 decoding
  and \<^verbatim>\<open>toLocaleDateString('en-US', ..)\<close>.
\<close>

record 'st server =
  srv_storage :: "'st storage"
  srv_jwt :: jwt_lib
  srv_secret :: string
  srv_scrypt :: scrypt
  srv_parse_submission :: "json \<Rightarrow> fault + insert_submission"
  srv_parse_value :: "json \<Rightarrow> fault + insert_leadership_value"
  srv_fromZodError :: "string \<Rightarrow> string"
  srv_sendEmail :: "email_message \<Rightarrow> fault + email_result"
  srv_extractFirstName :: "string \<Rightarrow> string"
  srv_base64 :: "string \<Rightarrow> byte list"
  srv_formatDate :: "int \<Rightarrow> string"

text \<open>
  What one request reads from its surroundings: the clock in seconds (for the JWT
  library), \<^verbatim>\<open>new Date().toISOString()\<close>, \<^verbatim>\<open>process.uptime()\<close> (whole seconds) and the
  result of \<^verbatim>\<open>randomBytes(16)\<close>.
\<close>

record ambient =
  clock_seconds :: nat
  clock_iso :: string
  process_uptime :: int
  random_bytes :: "byte list"

subsection \<open>Requests\<close>

text \<open>
  Request bodies are read at the types the handlers use them at: a field is a string or
  absent, and so is the \<^verbatim>\<open>companyCode\<close> query parameter. The bodies the Zod schemas
  parse stay JSON.
\<close>

record credentials =
  cred_username :: "string option"
  cred_password :: "string option"

record user_info =
  info_name :: "string option"
  info_email :: "string option"

record core_value =
  cv_value :: string
  cv_description :: string

record pdf_email_body =
  pdfBase64 :: "string option"
  userInfo :: "user_info option"
  pdf_coreValues :: "core_value list option"

datatype route =
    Root                              \<comment> \<open>\<^verbatim>\<open>GET /\<close>\<close>
  | Health                            \<comment> \<open>\<^verbatim>\<open>GET /api/health\<close>\<close>
  | Login credentials                 \<comment> \<open>\<^verbatim>\<open>POST /api/login\<close>\<close>
  | Register credentials              \<comment> \<open>\<^verbatim>\<open>POST /api/register\<close>\<close>
  | CurrentUser                       \<comment> \<open>\<^verbatim>\<open>GET /api/user\<close>\<close>
  | Logout                            \<comment> \<open>\<^verbatim>\<open>POST /api/logout\<close>\<close>
  | CreateSubmission json             \<comment> \<open>\<^verbatim>\<open>POST /api/submissions\<close>\<close>
  | ListLeadershipValues              \<comment> \<open>\<^verbatim>\<open>GET /api/leadership-values\<close>\<close>
  | CreateLeadershipValue json        \<comment> \<open>\<^verbatim>\<open>POST /api/leadership-values\<close>\<close>
  | GetLeadershipValue string         \<comment> \<open>\<^verbatim>\<open>GET /api/leadership-values/:id\<close>\<close>
  | UpdateLeadershipValue string json \<comment> \<open>\<^verbatim>\<open>PUT /api/leadership-values/:id\<close>\<close>
  | DeleteLeadershipValue string      \<comment> \<open>\<^verbatim>\<open>DELETE /api/leadership-values/:id\<close>\<close>
  | SendPdfEmail pdf_email_body       \<comment> \<open>\<^verbatim>\<open>POST /api/send-pdf-email\<close>\<close>
  | ListSubmissions                   \<comment> \<open>\<^verbatim>\<open>GET /api/submissions\<close>\<close>
  | SubmissionsByCompany string       \<comment> \<open>\<^verbatim>\<open>GET /api/submissions/company/:companyCode\<close>\<close>
  | CompanyCodes                      \<comment> \<open>\<^verbatim>\<open>GET /api/submissions/company-codes\<close>\<close>
  | Export "string option"            \<comment> \<open>\<^verbatim>\<open>GET /api/submissions/export?companyCode=\<close>\<close>

record request =
  authorization :: "string option"
  route :: route

subsection \<open>JavaScript primitives the handlers use\<close>

text \<open>\<^verbatim>\<open>error instanceof Error\<close> and \<^verbatim>\<open>error.message\<close>.\<close>

fun instanceof_Error :: "fault \<Rightarrow> bool" where
  "instanceof_Error NonError = False"
| "instanceof_Error _ = True"

fun error_message :: "fault \<Rightarrow> string" where
  "error_message (TypeError m) = m"
| "error_message (RangeError m) = m"
| "error_message (ZodError m) = m"
| "error_message (Error m) = m"
| "error_message NonError = []"

text \<open>A string operand of \<^verbatim>\<open>!x\<close> or \<^verbatim>\<open>x || y\<close>: \<open>None\<close> when it is falsy.\<close>

definition truthy :: "string option \<Rightarrow> string option" where
  "truthy v = (case v of None \<Rightarrow> None | Some s \<Rightarrow> if s = [] then None else Some s)"

text \<open>
  The double nearest to a natural number, ties to the even significand; \<open>None\<close> when
  that is beyond the largest double (the number becomes an infinity). Numbers below
  \<open>2^53\<close> are doubles themselves.
\<close>

function bit_length :: "int \<Rightarrow> nat" where
  "bit_length n = (if n \<le> 0 then 0 else Suc (bit_length (n div 2)))"
  by pat_completeness auto
termination
  by (relation "measure nat") auto

definition round_to_double :: "int \<Rightarrow> int option" where
  "round_to_double n =
     (if n < 9007199254740992 then Some n
      else
        (let e = bit_length n - 53;
             q = n div 2 ^ e;
             r = n mod 2 ^ e;
             half = 2 ^ (e - 1);
             q' = (if half < r \<or> (r = half \<and> odd q) then q + 1 else q);
             v = q' * 2 ^ e
         in if v < 2 ^ 1024 then Some v else None))"

text \<open>
  \<^verbatim>\<open>parseInt(s)\<close> with no radix: leading white space is skipped, then an optional sign,
  then \<^verbatim>\<open>0x\<close> or \<^verbatim>\<open>0X\<close> selects radix 16, then the longest run of digits is read; the
  rest of the string is ignored. The result is \<^verbatim>\<open>NaN\<close> when no digit was read, and else
  the integer read, as a double: rounded beyond \<open>2^53\<close>, infinite beyond the largest
  double (as V8 computes it; ECMAScript leaves the rounding beyond 20 significant digits
  to the implementation).
\<close>

definition is_space :: "char \<Rightarrow> bool" where
  "is_space c \<longleftrightarrow> (of_char c :: nat) \<in> {9, 10, 11, 12, 13, 32, 160}"

definition digit :: "nat \<Rightarrow> char \<Rightarrow> nat option" where
  "digit radix c =
     (case hexval c of
        None \<Rightarrow> None
      | Some d \<Rightarrow> if d < radix then Some d else None)"

fun digits_value :: "nat \<Rightarrow> int \<Rightarrow> string \<Rightarrow> int" where
  "digits_value radix acc [] = acc"
| "digits_value radix acc (c # cs) =
     (case digit radix c of
        None \<Rightarrow> acc
      | Some d \<Rightarrow> digits_value radix (acc * int radix + int d) cs)"

definition strip_sign :: "string \<Rightarrow> bool \<times> string" where
  "strip_sign s =
     (case s of
        [] \<Rightarrow> (False, s)
      | c # rest \<Rightarrow>
          if c = CHR ''-'' then (True, rest)
          else if c = CHR ''+'' then (False, rest)
          else (False, s))"

definition strip_prefix :: "string \<Rightarrow> nat \<times> string" where
  "strip_prefix s =
     (case s of
        a # b # rest \<Rightarrow>
          if a = CHR ''0'' \<and> (b = CHR ''x'' \<or> b = CHR ''X'') then (16, rest) else (10, s)
      | _ \<Rightarrow> (10, s))"

definition parseInt :: "string \<Rightarrow> number" where
  "parseInt str =
     (let (negative, s1) = strip_sign (dropWhile is_space str);
          (radix, s2) = strip_prefix s1
      in case s2 of
           [] \<Rightarrow> NaN
         | c # _ \<Rightarrow>
             (case digit radix c of
                None \<Rightarrow> NaN
              | Some _ \<Rightarrow>
                  (case round_to_double (digits_value radix 0 s2) of
                     None \<Rightarrow> if negative then NegativeInfinity else Infinity
                   | Some v \<Rightarrow> Finite (if negative then - v else v))))"

text \<open>\<^verbatim>\<open>isNaN(x)\<close> on a number.\<close>

definition isNaN :: "number \<Rightarrow> bool" where
  "isNaN x \<longleftrightarrow> x = NaN"

text \<open>A number in a template literal: its decimal digits.\<close>

fun decimal :: "nat \<Rightarrow> string" where
  "decimal n =
     (if n < 10 then [char_of (48 + n)]
      else decimal (n div 10) @ [char_of (48 + n mod 10)])"

subsection \<open>Health, session and account routes\<close>

definition root_handler :: "ambient \<Rightarrow> response" where
  "root_handler amb =
     json_reply 200 (JObj [(''status'', JStr ''ok''), (''timestamp'', JStr (clock_iso amb))])"

definition health_handler :: "'st server \<Rightarrow> ambient \<Rightarrow> 'st \<Rightarrow> response" where
  "health_handler srv amb st =
     (case getAllLeadershipValues (srv_storage srv) st of
        Inr values \<Rightarrow>
          json_reply 200
            (JObj [(''status'', JStr ''healthy''),
                   (''timestamp'', JStr (clock_iso amb)),
                   (''uptime'', JNum (process_uptime amb)),
                   (''database'', JStr ''connected'')])
      | Inl error \<Rightarrow>
          json_reply 503
            (JObj [(''status'', JStr ''unhealthy''),
                   (''timestamp'', JStr (clock_iso amb)),
                   (''uptime'', JNum (process_uptime amb)),
                   (''database'', JStr ''disconnected''),
                   (''error'', JStr (if instanceof_Error error then error_message error
                                     else ''Unknown error''))]))"

definition auth_json :: "auth_result \<Rightarrow> json" where
  "auth_json r = JObj [(''user'', JUser (result_user r)), (''token'', JStr (result_token r))]"

definition login_handler :: "'st server \<Rightarrow> ambient \<Rightarrow> 'st \<Rightarrow> credentials \<Rightarrow> response" where
  "login_handler srv amb st creds =
     (case truthy (cred_username creds) of
        None \<Rightarrow> message_reply 400 ''Username and password are required''
      | Some uname \<Rightarrow>
          (case truthy (cred_password creds) of
             None \<Rightarrow> message_reply 400 ''Username and password are required''
           | Some pw \<Rightarrow>
               (case loginUser (srv_storage srv) (srv_jwt srv) (srv_scrypt srv) (srv_secret srv)
                       (clock_seconds amb) st uname pw of
                  Inl error \<Rightarrow> message_reply 500 ''Internal server error''
                | Inr None \<Rightarrow> message_reply 401 ''Invalid credentials''
                | Inr (Some result) \<Rightarrow> json_reply 200 (auth_json result))))"

definition register_handler ::
  "'st server \<Rightarrow> ambient \<Rightarrow> 'st \<Rightarrow> credentials \<Rightarrow> response \<times> 'st" where
  "register_handler srv amb st creds =
     (case truthy (cred_username creds) of
        None \<Rightarrow> (message_reply 400 ''Username and password are required'', st)
      | Some uname \<Rightarrow>
          (case truthy (cred_password creds) of
             None \<Rightarrow> (message_reply 400 ''Username and password are required'', st)
           | Some pw \<Rightarrow>
               (case registerUser (srv_storage srv) (srv_jwt srv) (srv_scrypt srv) (srv_secret srv)
                       (clock_seconds amb) (random_bytes amb) st uname pw of
                  Inl error \<Rightarrow> (message_reply 500 ''Internal server error'', st)
                | Inr (None, st') \<Rightarrow> (message_reply 400 ''Username already exists'', st')
                | Inr (Some result, st') \<Rightarrow> (json_reply 201 (auth_json result), st'))))"

definition logout_handler :: response where
  "logout_handler = message_reply 200 ''Logged out successfully''"

subsection \<open>Submission and leadership-value routes\<close>

text \<open>
  The \<^verbatim>\<open>catch\<close> block shared by the routes that parse a body:
  \<^verbatim>\<open>if (error instanceof ZodError) 400 { message, errors } else 500 { message }\<close>.
\<close>

definition validation_catch :: "'st server \<Rightarrow> string \<Rightarrow> string \<Rightarrow> fault \<Rightarrow> response" where
  "validation_catch srv invalid generic error =
     (case error of
        ZodError m \<Rightarrow>
          json_reply 400 (JObj [(''message'', JStr invalid), (''errors'', JStr (srv_fromZodError srv m))])
      | _ \<Rightarrow> message_reply 500 generic)"

definition create_submission_handler :: "'st server \<Rightarrow> 'st \<Rightarrow> json \<Rightarrow> response \<times> 'st" where
  "create_submission_handler srv st reqBody =
     (let catch = validation_catch srv ''Invalid submission data''
                    ''An error occurred while processing your submission''
      in case srv_parse_submission srv reqBody of
           Inl error \<Rightarrow> (catch error, st)
         | Inr submissionData \<Rightarrow>
             (case createSubmission (srv_storage srv) st submissionData of
                Inl error \<Rightarrow> (catch error, st)
              | Inr (sub, st') \<Rightarrow>
                  (json_reply 201
                     (JObj [(''message'', JStr ''Submission recorded successfully''),
                            (''data'', JSubmission sub)]), st')))"

definition list_values_handler :: "'st server \<Rightarrow> 'st \<Rightarrow> response" where
  "list_values_handler srv st =
     (case getAllLeadershipValues (srv_storage srv) st of
        Inl error \<Rightarrow> message_reply 500 ''An error occurred while fetching leadership values''
      | Inr values \<Rightarrow> json_reply 200 (JArr (map JLeadershipValue values)))"

definition create_value_handler :: "'st server \<Rightarrow> 'st \<Rightarrow> json \<Rightarrow> response \<times> 'st" where
  "create_value_handler srv st reqBody =
     (let catch = validation_catch srv ''Invalid leadership value data''
                    ''An error occurred while creating the leadership value''
      in case srv_parse_value srv reqBody of
           Inl error \<Rightarrow> (catch error, st)
         | Inr valueData \<Rightarrow>
             (case createLeadershipValue (srv_storage srv) st valueData of
                Inl error \<Rightarrow> (catch error, st)
              | Inr (v, st') \<Rightarrow>
                  (json_reply 201
                     (JObj [(''message'', JStr ''Leadership value created successfully''),
                            (''data'', JLeadershipValue v)]), st')))"

definition get_value_handler :: "'st server \<Rightarrow> 'st \<Rightarrow> string \<Rightarrow> response" where
  "get_value_handler srv st idParam =
     (let i = parseInt idParam
      in if isNaN i then message_reply 400 ''Invalid ID format''
         else
           (case getLeadershipValueById (srv_storage srv) st i of
              Inl error \<Rightarrow> message_reply 500 ''An error occurred while fetching the leadership value''
            | Inr None \<Rightarrow> message_reply 404 ''Leadership value not found''
            | Inr (Some v) \<Rightarrow> json_reply 200 (JLeadershipValue v)))"

definition update_value_handler ::
  "'st server \<Rightarrow> 'st \<Rightarrow> string \<Rightarrow> json \<Rightarrow> response \<times> 'st" where
  "update_value_handler srv st idParam reqBody =
     (let catch = validation_catch srv ''Invalid leadership value data''
                    ''An error occurred while updating the leadership value'';
          i = parseInt idParam
      in if isNaN i then (message_reply 400 ''Invalid ID format'', st)
         else
           (case getLeadershipValueById (srv_storage srv) st i of
              Inl error \<Rightarrow> (catch error, st)
            | Inr None \<Rightarrow> (message_reply 404 ''Leadership value not found'', st)
            | Inr (Some existingValue) \<Rightarrow>
                (case srv_parse_value srv reqBody of
                   Inl error \<Rightarrow> (catch error, st)
                 | Inr valueData \<Rightarrow>
                     (case updateLeadershipValue (srv_storage srv) st i valueData of
                        Inl error \<Rightarrow> (catch error, st)
                      | Inr (updatedValue, st') \<Rightarrow>
                          (json_reply 200
                             (JObj ((''message'', JStr ''Leadership value updated successfully'') #
                                    (case updatedValue of
                                       None \<Rightarrow> []
                                     | Some v \<Rightarrow> [(''data'', JLeadershipValue v)]))), st')))))"

definition delete_value_handler :: "'st server \<Rightarrow> 'st \<Rightarrow> string \<Rightarrow> response \<times> 'st" where
  "delete_value_handler srv st idParam =
     (let i = parseInt idParam
      in if isNaN i then (message_reply 400 ''Invalid ID format'', st)
         else
           (case getLeadershipValueById (srv_storage srv) st i of
              Inl error \<Rightarrow>
                (message_reply 500 ''An error occurred while deleting the leadership value'', st)
            | Inr None \<Rightarrow> (message_reply 404 ''Leadership value not found'', st)
            | Inr (Some existingValue) \<Rightarrow>
                (case deleteLeadershipValue (srv_storage srv) st i of
                   Inl error \<Rightarrow>
                     (message_reply 500 ''An error occurred while deleting the leadership value'', st)
                 | Inr st' \<Rightarrow> (message_reply 200 ''Leadership value deleted successfully'', st'))))"

definition list_submissions_handler :: "'st server \<Rightarrow> 'st \<Rightarrow> response" where
  "list_submissions_handler srv st =
     (case getAllSubmissions (srv_storage srv) st of
        Inl error \<Rightarrow> message_reply 500 ''An error occurred while fetching submissions''
      | Inr subs \<Rightarrow> json_reply 200 (JArr (map JSubmission subs)))"

definition submissions_by_company_handler :: "'st server \<Rightarrow> 'st \<Rightarrow> string \<Rightarrow> response" where
  "submissions_by_company_handler srv st code =
     (case getSubmissionsByCompanyCode (srv_storage srv) st code of
        Inl error \<Rightarrow> message_reply 500 ''An error occurred while fetching submissions''
      | Inr subs \<Rightarrow> json_reply 200 (JArr (map JSubmission subs)))"

definition company_codes_handler :: "'st server \<Rightarrow> 'st \<Rightarrow> response" where
  "company_codes_handler srv st =
     (case getUniqueCompanyCodes (srv_storage srv) st of
        Inl error \<Rightarrow> message_reply 500 ''An error occurred while fetching company codes''
      | Inr codes \<Rightarrow> json_reply 200 (JArr (map JStr codes)))"

subsection \<open>CSV export\<close>

definition quoted :: "string \<Rightarrow> string" where
  "quoted s = [CHR 0x22] @ s @ [CHR 0x22]"

definition csvHeader :: string where
  "csvHeader = ''Name,Email,Company Code,Core Values,Date Submitted\<newline>''"

definition csvRow :: "(int \<Rightarrow> string) \<Rightarrow> submission \<Rightarrow> string" where
  "csvRow formatDate sub =
     (let coreValuesList =
            (case coreValues sub of
               Some vs \<Rightarrow> join '', '' vs
             | None \<Rightarrow> ''No values'')
      in join '',''
           [quoted (name sub),
            quoted (email sub),
            quoted (case truthy (companyCode sub) of Some c \<Rightarrow> c | None \<Rightarrow> []),
            quoted coreValuesList,
            quoted (formatDate (createdAt sub))])"

definition csvContent :: "(int \<Rightarrow> string) \<Rightarrow> submission list \<Rightarrow> string" where
  "csvContent formatDate subs = csvHeader @ join ''\<newline>'' (map (csvRow formatDate) subs)"

definition export_filename :: "string option \<Rightarrow> string" where
  "export_filename companyCodeParam =
     ''submissions'' @
     (case truthy companyCodeParam of Some c \<Rightarrow> ''_'' @ c | None \<Rightarrow> []) @ ''.csv''"

text \<open>
  \<^verbatim>\<open>if (companyCode && companyCode !== 'all')\<close> chooses the storage call; the file name
  only tests \<^verbatim>\<open>companyCode\<close> for truthiness.
\<close>

definition export_submissions :: "'st storage \<Rightarrow> 'st \<Rightarrow> string option \<Rightarrow> fault + submission list" where
  "export_submissions S st companyCodeParam =
     (case truthy companyCodeParam of
        None \<Rightarrow> getAllSubmissions S st
      | Some c \<Rightarrow>
          if c \<noteq> ''all'' then getSubmissionsByCompanyCode S st c else getAllSubmissions S st)"

text \<open>
  \<^verbatim>\<open>res.setHeader(name, value)\<close> refuses a value with a character outside the tab, the
  printable ASCII characters and the characters from U+0080 to U+00FF: it throws a
  \<^verbatim>\<open>TypeError\<close> (\<^verbatim>\<open>ERR_INVALID_CHAR\<close>) and leaves the headers as they were. The characters
  of a \<open>string\<close> here all lie below U+0100, so the model has no value that is refused for
  a character beyond U+00FF.
\<close>

definition valid_header_char :: "char \<Rightarrow> bool" where
  "valid_header_char c \<longleftrightarrow>
     (let n = (of_char c :: nat) in n = 9 \<or> (32 \<le> n \<and> n \<le> 126) \<or> 128 \<le> n)"

definition setHeader ::
  "(string \<times> string) list \<Rightarrow> string \<Rightarrow> string \<Rightarrow> fault + (string \<times> string) list" where
  "setHeader hs header v =
     (if list_all valid_header_char v then Inr (hs @ [(header, v)])
      else Inl (TypeError (''Invalid character in header content ['' @ quoted header @ '']'')))"

text \<open>
  The two \<^verbatim>\<open>setHeader\<close> calls are inside the \<^verbatim>\<open>try\<close>. When the second one throws, the
  \<^verbatim>\<open>catch\<close> answers 500 on a response whose Content-Type is already \<^verbatim>\<open>text/csv\<close>, and
  \<^verbatim>\<open>res.json\<close> leaves a Content-Type that is set as it is.
\<close>

definition export_handler :: "'st server \<Rightarrow> 'st \<Rightarrow> string option \<Rightarrow> response" where
  "export_handler srv st companyCodeParam =
     (let failed = (\<lambda>hs. (message_reply 500 ''An error occurred while exporting submissions'')
                            \<lparr>headers := hs\<rparr>)
      in case export_submissions (srv_storage srv) st companyCodeParam of
           Inl error \<Rightarrow> failed []
         | Inr subs \<Rightarrow>
             (let csv = csvContent (srv_formatDate srv) subs
              in case setHeader [] ''Content-Type'' ''text/csv'' of
                   Inl error \<Rightarrow> failed []
                 | Inr hs \<Rightarrow>
                     (case setHeader hs ''Content-Disposition''
                             (''attachment; filename='' @ quoted (export_filename companyCodeParam)) of
                        Inl error \<Rightarrow> failed hs
                      | Inr hs' \<Rightarrow> \<lparr>status = 200, headers = hs', body = TextBody csv\<rparr>)))"

subsection \<open>PDF e-mail relay\<close>

text \<open>\<^verbatim>\<open>coreValues.map((value, index) => `<li>${index + 1}. ...</li>`).join('')\<close>\<close>

definition valuesList :: "core_value list \<Rightarrow> string" where
  "valuesList cvs =
     concat (map (\<lambda>(i, v).
                ''<li>'' @ decimal (i + 1) @ ''. <strong>'' @ cv_value v @ ''</strong>: '' @
                cv_description v @ ''</li>'')
              (enumerate 0 cvs))"

definition email_html :: "string \<Rightarrow> string \<Rightarrow> string" where
  \<open>email_html firstName vlist =
     ''\<newline>        <div style="font-family: Arial, sans-serif; max-width: 600px; margin: 0 auto;">'' @
     ''\<newline>          <h1 style="color: #3b82f6;">Your Leadership Values</h1>'' @
     ''\<newline>          <p>Hello '' @ firstName @ '',</p>'' @
     ''\<newline>          <p>Thank you for completing the Leadership Values Assessment. Your PDF is attached to this email.</p>'' @
     ''\<newline>          <h2 style="color: #3b82f6;">Your Core Leadership Values:</h2>'' @
     ''\<newline>          <ul>'' @
     ''\<newline>            '' @ vlist @
     ''\<newline>          </ul>'' @
     ''\<newline>          <p>Use these values to guide your leadership journey and decision-making.</p>'' @
     ''\<newline>          <p>Best regards,<br>The Leadership Values Team</p>'' @
     ''\<newline>        </div>'' @
     ''\<newline>      ''\<close>

text \<open>
  \<^verbatim>\<open>Buffer.from(pdfBase64.split(',')[1], 'base64')\<close>: a data URL without a comma gives
  \<^verbatim>\<open>undefined\<close>, on which \<^verbatim>\<open>Buffer.from\<close> throws.
\<close>

definition pdf_buffer :: "(string \<Rightarrow> byte list) \<Rightarrow> string \<Rightarrow> fault + byte list" where
  "pdf_buffer base64 dataUrl =
     (case index (split_on CHR '','' dataUrl) 1 of
        None \<Rightarrow> Inl (TypeError ''The first argument must be of type string'')
      | Some payload \<Rightarrow> Inr (base64 payload))"

definition pdf_email_message ::
  "'st server \<Rightarrow> string \<Rightarrow> string \<Rightarrow> core_value list \<Rightarrow> byte list \<Rightarrow> email_message" where
  "pdf_email_message srv uname uemail cvs pdfBuffer =
     (let firstName = srv_extractFirstName srv uname
      in \<lparr>mail_to = uemail,
          mail_subject = ''Your Leadership Values Results'',
          mail_html = email_html firstName (valuesList cvs),
          mail_attachments =
            [\<lparr>att_filename = firstName @ ''_Leadership_Values.pdf'', att_content = pdfBuffer\<rparr>]\<rparr>)"

definition error_reply :: "nat \<Rightarrow> string \<Rightarrow> response" where
  "error_reply code m = json_reply code (JObj [(''error'', JStr m)])"

definition send_pdf_email_handler :: "'st server \<Rightarrow> pdf_email_body \<Rightarrow> response" where
  "send_pdf_email_handler srv reqBody =
     (case (truthy (pdfBase64 reqBody), userInfo reqBody, pdf_coreValues reqBody) of
        (Some dataUrl, Some info, Some cvs) \<Rightarrow>
          (case (truthy (info_email info), truthy (info_name info)) of
             (Some uemail, Some uname) \<Rightarrow>
               (case pdf_buffer (srv_base64 srv) dataUrl of
                  Inl error \<Rightarrow> error_reply 500 ''Failed to send email''
                | Inr pdfBuffer \<Rightarrow>
                    (case srv_sendEmail srv (pdf_email_message srv uname uemail cvs pdfBuffer) of
                       Inl error \<Rightarrow> error_reply 500 ''Failed to send email''
                     | Inr result \<Rightarrow>
                         if success result then json_reply 200 (JObj [(''success'', JBool True)])
                         else
                           json_reply 500
                             (JObj ((''error'', JStr ''Failed to send email'') #
                                    (case send_error result of
                                       None \<Rightarrow> []
                                     | Some details \<Rightarrow> [(''details'', details)])))))
           | _ \<Rightarrow> error_reply 400 ''Missing required data'')
      | _ \<Rightarrow> error_reply 400 ''Missing required data'')"

subsection \<open>The route table\<close>

text \<open>
  A route registered with \<^verbatim>\<open>authenticateToken\<close> runs its handler only on \<open>Next\<close>. The
  result is the response and the storage state left behind; \<open>Inl\<close> would be a fault
  that no \<^verbatim>\<open>catch\<close> of the application handled.
\<close>

definition authenticated ::
  "'st server \<Rightarrow> ambient \<Rightarrow> 'st \<Rightarrow> string option \<Rightarrow> (user \<Rightarrow> response \<times> 'st) \<Rightarrow>
     fault + (response \<times> 'st)" where
  "authenticated srv amb st authHeader handler =
     (case authenticateToken (srv_storage srv) (srv_jwt srv) (srv_secret srv) (clock_seconds amb)
             st authHeader of
        Inl e \<Rightarrow> Inl e
      | Inr (Respond r) \<Rightarrow> Inr (r, st)
      | Inr (Next u) \<Rightarrow> Inr (handler u))"

definition handle :: "'st server \<Rightarrow> ambient \<Rightarrow> 'st \<Rightarrow> request \<Rightarrow> fault + (response \<times> 'st)" where
  "handle srv amb st req =
     (case route req of
        Root \<Rightarrow> Inr (root_handler amb, st)
      | Health \<Rightarrow> Inr (health_handler srv amb st, st)
      | Login creds \<Rightarrow> Inr (login_handler srv amb st creds, st)
      | Register creds \<Rightarrow> Inr (register_handler srv amb st creds)
      | CurrentUser \<Rightarrow>
          authenticated srv amb st (authorization req) (\<lambda>u. (json_reply 200 (JUser u), st))
      | Logout \<Rightarrow> Inr (logout_handler, st)
      | CreateSubmission reqBody \<Rightarrow> Inr (create_submission_handler srv st reqBody)
      | ListLeadershipValues \<Rightarrow> Inr (list_values_handler srv st, st)
      | CreateLeadershipValue reqBody \<Rightarrow>
          authenticated srv amb st (authorization req) (\<lambda>u. create_value_handler srv st reqBody)
      | GetLeadershipValue idParam \<Rightarrow>
          authenticated srv amb st (authorization req) (\<lambda>u. (get_value_handler srv st idParam, st))
      | UpdateLeadershipValue idParam reqBody \<Rightarrow>
          authenticated srv amb st (authorization req)
            (\<lambda>u. update_value_handler srv st idParam reqBody)
      | DeleteLeadershipValue idParam \<Rightarrow>
          authenticated srv amb st (authorization req) (\<lambda>u. delete_value_handler srv st idParam)
      | SendPdfEmail reqBody \<Rightarrow> Inr (send_pdf_email_handler srv reqBody, st)
      | ListSubmissions \<Rightarrow>
          authenticated srv amb st (authorization req) (\<lambda>u. (list_submissions_handler srv st, st))
      | SubmissionsByCompany code \<Rightarrow>
          authenticated srv amb st (authorization req)
            (\<lambda>u. (submissions_by_company_handler srv st code, st))
      | CompanyCodes \<Rightarrow>
          authenticated srv amb st (authorization req) (\<lambda>u. (company_codes_handler srv st, st))
      | Export companyCodeParam \<Rightarrow>
          authenticated srv amb st (authorization req)
            (\<lambda>u. (export_handler srv st companyCodeParam, st)))"

section \<open>Contracts of the collaborators\<close>

text \<open>
  What the theorems below assume of the \<^verbatim>\<open>jsonwebtoken\<close> library: before its expiry a
  token verifies, under the secret it was signed with, to the payload that was signed;
  from its expiry on it is rejected; under any other secret it is rejected; a string
  that is not three dot-separated parts is rejected. The third clause is the usual
  idealisation of a MAC: distinct secrets never produce the same signature.
\<close>

definition jwt_contract :: "jwt_lib \<Rightarrow> bool" where
  "jwt_contract J \<longleftrightarrow>
     (\<forall>p s ttl t now. now < t + ttl \<longrightarrow> jwt_verify J (jwt_sign J p s ttl t) s now = Inr p) \<and>
     (\<forall>p s ttl t now. t + ttl \<le> now \<longrightarrow>
        jwt_verify J (jwt_sign J p s ttl t) s now = Inl TokenExpiredError) \<and>
     (\<forall>p s s' ttl t now. s \<noteq> s' \<longrightarrow>
        jwt_verify J (jwt_sign J p s ttl t) s' now = Inl JsonWebTokenError) \<and>
     (\<forall>tok s now. length (split_on CHR ''.'' tok) \<noteq> 3 \<longrightarrow>
        jwt_verify J tok s now = Inl JsonWebTokenError)"

text \<open>
  The converse idealisation: a token verifies under a secret only if it was signed under
  that secret and has not expired. It is what makes a string that was never signed, of
  whatever shape, fail verification.
\<close>

definition jwt_unforgeable :: "jwt_lib \<Rightarrow> bool" where
  "jwt_unforgeable J \<longleftrightarrow>
     (\<forall>tok s now p. jwt_verify J tok s now = Inr p \<longrightarrow>
        (\<exists>ttl t. tok = jwt_sign J p s ttl t \<and> now < t + ttl))"

text \<open>
  What is assumed of \<^verbatim>\<open>storage.createUser\<close>: the row it returns carries the username
  and password it was given, and \<^verbatim>\<open>getUserByUsername\<close> finds that row afterwards.
\<close>

definition stores_users :: "'st storage \<Rightarrow> bool" where
  "stores_users S \<longleftrightarrow>
     (\<forall>st ins u st'. createUser S st ins = Inr (u, st') \<longrightarrow>
        username u = ins_username ins \<and> password u = ins_password ins \<and>
        getUserByUsername S st' (ins_username ins) = Inr (Some u))"

text \<open>
  What is assumed of \<^verbatim>\<open>storage.getSubmissionsByCompanyCode\<close>: it returns the submissions
  \<^verbatim>\<open>getAllSubmissions\<close> returns whose company code is exactly the given one.
\<close>

definition filters_by_company :: "'st storage \<Rightarrow> bool" where
  "filters_by_company S \<longleftrightarrow>
     (\<forall>st c subs every. getSubmissionsByCompanyCode S st c = Inr subs \<longrightarrow>
        getAllSubmissions S st = Inr every \<longrightarrow>
        subs = filter (\<lambda>sub. companyCode sub = Some c) every)"

section \<open>Reference collaborators\<close>

text \<open>
  Concrete collaborators on which the theorems are instantiated: they show that the
  contracts above can be met, and give every theorem a run on explicit data.
\<close>

subsection \<open>A token library\<close>

text \<open>
  Tokens of three dot-separated parts: the secret in hexadecimal; the username in
  hexadecimal followed by \<open>p\<close> or \<open>n\<close> (the sign of the user id) and \<open>|id|\<close> letters
  \<open>x\<close>; the expiry time as that many letters \<open>x\<close>.
\<close>

definition hex_of_string :: "string \<Rightarrow> string" where
  "hex_of_string s = toString_hex (map (\<lambda>c. word_of_nat (of_char c)) s)"

definition string_of_hex :: "string \<Rightarrow> string" where
  "string_of_hex h = map (\<lambda>b. char_of (unat b)) (hex_decode h)"

definition hexchar :: "char \<Rightarrow> bool" where
  "hexchar c \<longleftrightarrow> hexval c \<noteq> None"

definition toy_sign :: "token_payload \<Rightarrow> string \<Rightarrow> nat \<Rightarrow> nat \<Rightarrow> string" where
  "toy_sign p secret ttl now =
     hex_of_string secret @ ''.'' @
     hex_of_string (payload_username p) @ (if userId p < 0 then ''n'' else ''p'') @
       replicate (nat \<bar>userId p\<bar>) CHR ''x'' @ ''.'' @
     replicate (now + ttl) CHR ''x''"

definition toy_id :: "string \<Rightarrow> int" where
  "toy_id s =
     (case dropWhile hexchar s of
        [] \<Rightarrow> 0
      | c # xs \<Rightarrow> if c = CHR ''n'' then - int (length xs) else int (length xs))"

text \<open>
  Verification decodes the payload and the expiry time and accepts the token only if
  signing them under the secret gives the token back.
\<close>

definition toy_payload :: "string \<Rightarrow> token_payload" where
  "toy_payload b = \<lparr>userId = toy_id b, payload_username = string_of_hex b\<rparr>"

definition toy_verify :: "string \<Rightarrow> string \<Rightarrow> nat \<Rightarrow> jwt_error + token_payload" where
  "toy_verify tok secret now =
     (case split_on CHR ''.'' tok of
        [a, b, c] \<Rightarrow>
          if tok \<noteq> toy_sign (toy_payload b) secret (length c) 0 then Inl JsonWebTokenError
          else if length c \<le> now then Inl TokenExpiredError
          else Inr (toy_payload b)
      | _ \<Rightarrow> Inl JsonWebTokenError)"

definition toy_jwt :: jwt_lib where
  "toy_jwt = \<lparr>jwt_sign = toy_sign, jwt_verify = toy_verify\<rparr>"

subsection \<open>A key-derivation function\<close>

text \<open>The bytes of the salt followed by those of the password, cut or padded to the length.\<close>

definition toy_kdf :: kdf where
  "toy_kdf pw salt keylen =
     take keylen (map (\<lambda>c. word_of_nat (of_char c)) (salt @ pw) @ replicate keylen 0)"

subsection \<open>An in-memory storage\<close>

text \<open>
  Modelled from the spec: the \<^verbatim>\<open>storage\<close> module is not among the sources. Users have
  unique usernames and numeric identifiers, rows are independently keyed, company codes
  are matched exactly, and any call fails while the store is not reachable.
\<close>

record mem =
  online :: bool
  users :: "user list"
  leadershipValues :: "leadership_value list"
  submissions :: "submission list"
  mem_time :: int

definition unreachable :: fault where
  "unreachable = Error ''connect ECONNREFUSED 127.0.0.1:5432''"

definition guarded :: "mem \<Rightarrow> 'a \<Rightarrow> fault + 'a" where
  "guarded st v = (if online st then Inr v else Inl unreachable)"

definition fresh_id :: "int list \<Rightarrow> int" where
  "fresh_id ids = fold max ids 0 + 1"

definition mem_createUser :: "mem \<Rightarrow> insert_user \<Rightarrow> fault + (user \<times> mem)" where
  "mem_createUser st ins =
     (if \<not> online st then Inl unreachable
      else if find (\<lambda>u. username u = ins_username ins) (users st) \<noteq> None
      then Inl (Error ''duplicate key value violates unique constraint'')
      else
        (let u = \<lparr>id_of = fresh_id (map id_of (users st)),
                  username = ins_username ins, password = ins_password ins\<rparr>
         in Inr (u, st\<lparr>users := users st @ [u]\<rparr>)))"

definition mem_createLeadershipValue ::
  "mem \<Rightarrow> insert_leadership_value \<Rightarrow> fault + (leadership_value \<times> mem)" where
  "mem_createLeadershipValue st ins =
     (let v = \<lparr>value_id = fresh_id (map value_id (leadershipValues st)),
               value_name = ins_value ins, value_description = ins_description ins\<rparr>
      in guarded st (v, st\<lparr>leadershipValues := leadershipValues st @ [v]\<rparr>))"

definition mem_updateLeadershipValue ::
  "mem \<Rightarrow> number \<Rightarrow> insert_leadership_value \<Rightarrow> fault + (leadership_value option \<times> mem)" where
  "mem_updateLeadershipValue st i ins =
     (let upd = (\<lambda>v. if Finite (value_id v) = i
                     then v\<lparr>value_name := ins_value ins, value_description := ins_description ins\<rparr>
                     else v);
          vs = map upd (leadershipValues st)
      in guarded st (find (\<lambda>v. Finite (value_id v) = i) vs, st\<lparr>leadershipValues := vs\<rparr>))"

definition mem_createSubmission :: "mem \<Rightarrow> insert_submission \<Rightarrow> fault + (submission \<times> mem)" where
  "mem_createSubmission st ins =
     (let sub = \<lparr>submission_id = fresh_id (map submission_id (submissions st)),
                 name = ins_name ins, email = ins_email ins,
                 companyCode = ins_companyCode ins,
                 coreValues = Some (ins_coreValues ins),
                 createdAt = mem_time st\<rparr>
      in guarded st (sub, st\<lparr>submissions := submissions st @ [sub]\<rparr>))"

definition mem_storage :: "mem storage" where
  "mem_storage =
     \<lparr>getUser = (\<lambda>st i. guarded st (find (\<lambda>u. id_of u = i) (users st))),
      getUserByUsername = (\<lambda>st n. guarded st (find (\<lambda>u. username u = n) (users st))),
      createUser = mem_createUser,
      getAllLeadershipValues = (\<lambda>st. guarded st (leadershipValues st)),
      getLeadershipValueById =
        (\<lambda>st i. guarded st (find (\<lambda>v. Finite (value_id v) = i) (leadershipValues st))),
      createLeadershipValue = mem_createLeadershipValue,
      updateLeadershipValue = mem_updateLeadershipValue,
      deleteLeadershipValue =
        (\<lambda>st i. guarded st
           (st\<lparr>leadershipValues := filter (\<lambda>v. Finite (value_id v) \<noteq> i) (leadershipValues st)\<rparr>)),
      createSubmission = mem_createSubmission,
      getAllSubmissions = (\<lambda>st. guarded st (submissions st)),
      getSubmissionsByCompanyCode =
        (\<lambda>st c. guarded st (filter (\<lambda>sub. companyCode sub = Some c) (submissions st))),
      getUniqueCompanyCodes =
        (\<lambda>st. guarded st (remdups (List.map_filter companyCode (submissions st))))\<rparr>"

definition empty_mem :: mem where
  "empty_mem = \<lparr>online = True, users = [], leadershipValues = [], submissions = [], mem_time = 0\<rparr>"

text \<open>
  A server on the reference collaborators; its validators accept no body, and its dates
  are days of May 2024.
\<close>

definition mem_server :: "mem server" where
  "mem_server =
     \<lparr>srv_storage = mem_storage,
      srv_jwt = toy_jwt,
      srv_secret = JWT_SECRET None,
      srv_scrypt = resolving toy_kdf,
      srv_parse_submission = (\<lambda>j. Inl (ZodError ''Required'')),
      srv_parse_value = (\<lambda>j. Inl (ZodError ''Required'')),
      srv_fromZodError = (\<lambda>m. ''Validation error: '' @ m),
      srv_sendEmail = (\<lambda>m. Inr \<lparr>success = True, send_error = None\<rparr>),
      srv_extractFirstName = (\<lambda>n. takeWhile (\<lambda>c. c \<noteq> CHR '' '') n),
      srv_base64 = (\<lambda>s. []),
      srv_formatDate = (\<lambda>t. ''May '' @ decimal (nat t) @ '', 2024'')\<rparr>"

subsection \<open>Sample data\<close>

text \<open>
  An administrator, a bearer header whose token the reference library issued for that
  user at time 0 for three seconds, the surroundings of a request made at time 1, and a storage
  state with one leadership value and the two submissions of the spec's CSV example.
\<close>

definition admin :: user where
  "admin = \<lparr>id_of = 1, username = ''admin'', password = ''c0ffee''\<rparr>"

definition admin_header :: "string option" where
  "admin_header =
     Some (''Bearer '' @
           toy_sign \<lparr>userId = 1, payload_username = ''admin''\<rparr> (JWT_SECRET None) 3 0)"

definition sample_ambient :: ambient where
  "sample_ambient =
     \<lparr>clock_seconds = 1, clock_iso = ''2024-05-01T12:00:00.000Z'', process_uptime = 42,
      random_bytes = [1, 2, 3, 4, 5, 6, 7, 8, 9, 10, 11, 12, 13, 14, 15, 16]\<rparr>"

definition courage :: leadership_value where
  "courage = \<lparr>value_id = 12, value_name = ''Courage'', value_description = ''Acting despite fear''\<rparr>"

definition ada :: submission where
  "ada = \<lparr>submission_id = 1, name = ''Ada'', email = ''ada@example.com'',
           companyCode = Some ''acme'', coreValues = Some [''Integrity'', ''Courage''],
           createdAt = 1\<rparr>"

definition bob :: submission where
  "bob = \<lparr>submission_id = 2, name = ''Bob'', email = ''bob@example.com'',
           companyCode = None, coreValues = Some [''Honesty''],
           createdAt = 2\<rparr>"

definition sample_mem :: mem where
  "sample_mem =
     \<lparr>online = True, users = [admin], leadershipValues = [courage], submissions = [ada, bob],
      mem_time = 3\<rparr>"

section \<open>Words of the specification\<close>


section \<open>Independence of a response from the faults of storage\<close>

text \<open>
  To say that a response carries nothing of an internal error, the server is run a
  second time with the faults that the storage and the e-mail collaborator throw replaced
  by one fixed \<^verbatim>\<open>Error\<close>: \<open>relabel_server scope m srv\<close> behaves as \<open>srv\<close>, except that what
  those collaborators throw is \<open>Error m\<close>. The scope says which faults are replaced:
  every one, or every one that is not a \<^verbatim>\<open>ZodError\<close>.
\<close>

datatype scope = EveryFault | EveryFaultButZodError

definition relabel :: "scope \<Rightarrow> string \<Rightarrow> fault + 'a \<Rightarrow> fault + 'a" where
  "relabel sc m r =
     (case r of
        Inl (ZodError z) \<Rightarrow> if sc = EveryFaultButZodError then Inl (ZodError z) else Inl (Error m)
      | Inl _ \<Rightarrow> Inl (Error m)
      | Inr v \<Rightarrow> Inr v)"

text \<open>The routes whose \<^verbatim>\<open>catch\<close> block tests \<^verbatim>\<open>error instanceof ZodError\<close>.\<close>

definition validating :: "route \<Rightarrow> bool" where
  "validating r =
     (case r of
        CreateSubmission reqBody \<Rightarrow> True
      | CreateLeadershipValue reqBody \<Rightarrow> True
      | UpdateLeadershipValue idParam reqBody \<Rightarrow> True
      | _ \<Rightarrow> False)"

definition relabel_storage :: "scope \<Rightarrow> string \<Rightarrow> 'st storage \<Rightarrow> 'st storage" where
  "relabel_storage sc m S =
     \<lparr>getUser = (\<lambda>st i. relabel sc m (getUser S st i)),
      getUserByUsername = (\<lambda>st n. relabel sc m (getUserByUsername S st n)),
      createUser = (\<lambda>st ins. relabel sc m (createUser S st ins)),
      getAllLeadershipValues = (\<lambda>st. relabel sc m (getAllLeadershipValues S st)),
      getLeadershipValueById = (\<lambda>st i. relabel sc m (getLeadershipValueById S st i)),
      createLeadershipValue = (\<lambda>st ins. relabel sc m (createLeadershipValue S st ins)),
      updateLeadershipValue = (\<lambda>st i ins. relabel sc m (updateLeadershipValue S st i ins)),
      deleteLeadershipValue = (\<lambda>st i. relabel sc m (deleteLeadershipValue S st i)),
      createSubmission = (\<lambda>st ins. relabel sc m (createSubmission S st ins)),
      getAllSubmissions = (\<lambda>st. relabel sc m (getAllSubmissions S st)),
      getSubmissionsByCompanyCode = (\<lambda>st c. relabel sc m (getSubmissionsByCompanyCode S st c)),
      getUniqueCompanyCodes = (\<lambda>st. relabel sc m (getUniqueCompanyCodes S st))\<rparr>"

definition relabel_server :: "scope \<Rightarrow> string \<Rightarrow> 'st server \<Rightarrow> 'st server" where
  "relabel_server sc m srv =
     srv\<lparr>srv_storage := relabel_storage sc m (srv_storage srv),
         srv_sendEmail := (\<lambda>msg. relabel sc m (srv_sendEmail srv msg))\<rparr>"

section \<open>Properties\<close>

subsection \<open>Splitting and hexadecimal encoding\<close>

lemma split_on_not_Nil: "split_on c s \<noteq> []"
  by (induction s) (auto split: list.splits)

lemma split_on_no_sep: "c \<notin> set s \<Longrightarrow> split_on c s = [s]"
  by (induction s) auto

lemma split_on_first_sep: "c \<notin> set a \<Longrightarrow> split_on c (a @ c # b) = a # split_on c b"
  by (induction a) (auto split: list.splits)

lemma hexval_hexdigit: "n < 16 \<Longrightarrow> hexval (hexdigit n) = Some n"
proof -
  assume "n < 16"
  then have "n \<in> {0, 1, 2, 3, 4, 5, 6, 7, 8, 9, 10, 11, 12, 13, 14, 15}" by (simp; arith)
  then show ?thesis
    by (auto simp: hexval_def hexdigit_def)
qed

lemma hexdigit_not_dot: "hexdigit n \<noteq> CHR ''.''"
proof -
  have "n mod 16 \<in> {0, 1, 2, 3, 4, 5, 6, 7, 8, 9, 10, 11, 12, 13, 14, 15}"
    by (simp; arith)
  then show ?thesis
    by (auto simp: hexdigit_def)
qed

lemma hex_of_byte_no_dot: "CHR ''.'' \<notin> set (hex_of_byte b)"
  using hexdigit_not_dot [of "unat b div 16"] hexdigit_not_dot [of "unat b mod 16"]
  by (simp add: hex_of_byte_def neq_commute)

lemma toString_hex_no_dot: "CHR ''.'' \<notin> set (toString_hex buf)"
  by (simp add: toString_hex_def hex_of_byte_no_dot)

lemma nibble_bound: "unat (b :: byte) div 16 < 16"
proof -
  have "unat b < 256" using unsigned_less [of b] by simp
  then show ?thesis by arith
qed

lemma hex_decode_byte: "hex_decode (hex_of_byte b @ rest) = b # hex_decode rest"
  using nibble_bound [of b] by (simp add: hex_of_byte_def hexval_hexdigit)

lemma hex_decode_toString_hex: "hex_decode (toString_hex buf) = buf"
  by (induction buf) (simp_all add: toString_hex_def hex_decode_byte)

subsection \<open>The password hasher\<close>

lemma hashPassword_cases:
  "hashPassword scrypt rand pw =
     (case scrypt pw (toString_hex rand) 64 of
        Inl e \<Rightarrow> Inl e
      | Inr key \<Rightarrow> Inr (toString_hex key @ CHR ''.'' # toString_hex rand))"
  by (simp add: hashPassword_def scryptAsync_def Let_def split: sum.splits)

lemma stored_parts:
  "split_on CHR ''.'' (toString_hex key @ CHR ''.'' # toString_hex salt) =
     [toString_hex key, toString_hex salt]"
  by (simp add: split_on_first_sep split_on_no_sep toString_hex_no_dot)

lemma comparePasswords_hashed:
  "scrypt pw (toString_hex rand) 64 = Inr key \<Longrightarrow>
   comparePasswords scrypt pw (toString_hex key @ CHR ''.'' # toString_hex rand) = Inr True"
  by (simp add: comparePasswords_def stored_parts index_def Buffer_from_hex_def scryptAsync_def
      hex_decode_toString_hex timingSafeEqual_def)

lemma comparePasswords_no_salt:
  "CHR ''.'' \<notin> set stored \<Longrightarrow>
   comparePasswords scrypt supplied stored =
     Inl (TypeError ''The salt argument must be of type string'')"
  by (simp add: comparePasswords_def split_on_no_sep index_def Buffer_from_hex_def scryptAsync_def)

lemma comparePasswords_cases:
  "comparePasswords scrypt supplied stored =
     (case index (split_on CHR ''.'' stored) 1 of
        None \<Rightarrow> Inl (TypeError ''The salt argument must be of type string'')
      | Some salt \<Rightarrow>
          (case scrypt supplied salt 64 of
             Inl e \<Rightarrow> Inl e
           | Inr key \<Rightarrow> timingSafeEqual (hex_decode (hd (split_on CHR ''.'' stored))) key))"
  using split_on_not_Nil [of "CHR ''.''" stored]
  by (cases "split_on CHR ''.'' stored")
     (auto simp: comparePasswords_def index_def Buffer_from_hex_def scryptAsync_def
       split: option.splits sum.splits)

subsection \<open>The reference token library meets its contract\<close>

lemma hex_decode_stop: "hexval c = None \<Longrightarrow> hex_decode (toString_hex bs @ c # rest) = bs"
proof (induction bs)
  case Nil
  then show ?case by (cases rest) (simp_all add: toString_hex_def)
next
  case (Cons b bs)
  then show ?case using hex_decode_byte [of b "toString_hex bs @ c # rest"]
    by (simp add: toString_hex_def)
qed

lemma char_byte_char: "char_of (unat (word_of_nat (of_char c) :: byte)) = c"
  by (simp add: unat_of_nat)

lemma string_of_hex_of_string: "string_of_hex (hex_of_string s) = s"
  by (simp add: string_of_hex_def hex_of_string_def hex_decode_toString_hex comp_def char_byte_char)

lemma string_of_hex_stop: "hexval c = None \<Longrightarrow> string_of_hex (hex_of_string s @ c # rest) = s"
  by (simp add: string_of_hex_def hex_of_string_def hex_decode_stop comp_def char_byte_char)

lemma hexchar_hex_of_byte: "c \<in> set (hex_of_byte b) \<Longrightarrow> hexchar c"
  using nibble_bound [of b] hexval_hexdigit [of "unat b div 16"] hexval_hexdigit [of "unat b mod 16"]
  by (auto simp: hex_of_byte_def hexchar_def)

lemma dropWhile_hex: "\<not> hexchar c \<Longrightarrow> dropWhile hexchar (hex_of_string s @ c # rest) = c # rest"
proof -
  assume c: "\<not> hexchar c"
  have "\<And>x. x \<in> set (hex_of_string s) \<Longrightarrow> hexchar x"
    by (auto simp: hex_of_string_def toString_hex_def hexchar_hex_of_byte)
  then show ?thesis using c by (simp add: dropWhile_append2)
qed

lemma hex_of_string_no_dot: "CHR ''.'' \<notin> set (hex_of_string s)"
  by (simp add: hex_of_string_def toString_hex_no_dot)

lemma toy_sign_parts:
  "split_on CHR ''.'' (toy_sign p s ttl t) =
     [hex_of_string s,
      hex_of_string (payload_username p) @ (if userId p < 0 then ''n'' else ''p'') @
        replicate (nat \<bar>userId p\<bar>) CHR ''x'',
      replicate (t + ttl) CHR ''x'']"
proof -
  let ?mid = "hex_of_string (payload_username p) @ (if userId p < 0 then ''n'' else ''p'') @
        replicate (nat \<bar>userId p\<bar>) CHR ''x''"
  let ?last = "replicate (t + ttl) CHR ''x''"
  have mid: "CHR ''.'' \<notin> set ?mid" by (simp add: hex_of_string_no_dot)
  have last: "CHR ''.'' \<notin> set ?last" by simp
  have "toy_sign p s ttl t = hex_of_string s @ CHR ''.'' # (?mid @ CHR ''.'' # ?last)"
    by (simp add: toy_sign_def)
  then show ?thesis
    using split_on_first_sep [OF hex_of_string_no_dot, of s "?mid @ CHR ''.'' # ?last"]
      split_on_first_sep [OF mid, of ?last] split_on_no_sep [OF last]
    by simp
qed

lemma toy_id_mid:
  "toy_id (hex_of_string u @ (if i < 0 then ''n'' else ''p'') @ replicate (nat \<bar>i\<bar>) CHR ''x'') = i"
proof (cases "i < 0")
  case True
  have "\<not> hexchar CHR ''n''" by (simp add: hexchar_def hexval_def)
  from dropWhile_hex [OF this, of u "replicate (nat \<bar>i\<bar>) CHR ''x''"] True
  show ?thesis by (simp add: toy_id_def)
next
  case False
  have "\<not> hexchar CHR ''p''" by (simp add: hexchar_def hexval_def)
  from dropWhile_hex [OF this, of u "replicate (nat \<bar>i\<bar>) CHR ''x''"] False
  show ?thesis by (simp add: toy_id_def)
qed

lemma username_mid:
  "string_of_hex (hex_of_string u @ (if i < 0 then ''n'' else ''p'') @ replicate k CHR ''x'') = u"
proof -
  have n: "hexval CHR ''n'' = None" and p: "hexval CHR ''p'' = None"
    by (simp_all add: hexval_def)
  show ?thesis
    using string_of_hex_stop [OF n, of u "replicate k CHR ''x''"]
      string_of_hex_stop [OF p, of u "replicate k CHR ''x''"]
    by simp
qed

lemma toy_payload_mid:
  "toy_payload (hex_of_string (payload_username p) @ (if userId p < 0 then ''n'' else ''p'') @
     replicate (nat \<bar>userId p\<bar>) CHR ''x'') = p"
  by (simp add: toy_payload_def toy_id_mid username_mid)

lemma toy_sign_secret: "toy_sign p s ttl t = toy_sign p' s' ttl' t' \<Longrightarrow> s = s'"
proof -
  assume "toy_sign p s ttl t = toy_sign p' s' ttl' t'"
  then have "split_on CHR ''.'' (toy_sign p s ttl t) = split_on CHR ''.'' (toy_sign p' s' ttl' t')"
    by simp
  then have "hex_of_string s = hex_of_string s'"
    by (simp add: toy_sign_parts)
  then have "string_of_hex (hex_of_string s) = string_of_hex (hex_of_string s')"
    by simp
  then show "s = s'"
    by (simp add: string_of_hex_of_string)
qed

lemma toy_sign_time: "toy_sign p s ttl t = toy_sign p s (t + ttl) 0"
  by (simp add: toy_sign_def)

lemma toy_verify_sign:
  "toy_verify (toy_sign p s ttl t) s' now =
     (if s \<noteq> s' then Inl JsonWebTokenError
      else if t + ttl \<le> now then Inl TokenExpiredError
      else Inr p)"
proof (cases "s = s'")
  case True
  then show ?thesis
    using toy_sign_time [of p s ttl t]
    by (simp add: toy_verify_def toy_sign_parts toy_payload_mid)
next
  case False
  have "toy_sign p s ttl t \<noteq> toy_sign p s' (t + ttl) 0"
    using False toy_sign_secret by blast
  with False show ?thesis
    by (simp add: toy_verify_def toy_sign_parts toy_payload_mid)
qed

lemma toy_jwt_contract: "jwt_contract toy_jwt"
  unfolding jwt_contract_def
proof (intro conjI allI impI)
  fix tok s now
  assume "length (split_on CHR ''.'' tok) \<noteq> 3"
  then show "jwt_verify toy_jwt tok s now = Inl JsonWebTokenError"
    by (auto simp: toy_jwt_def toy_verify_def split: list.splits)
qed (simp_all add: toy_jwt_def toy_verify_sign)

lemma toy_jwt_unforgeable: "jwt_unforgeable toy_jwt"
  unfolding jwt_unforgeable_def
proof (intro allI impI)
  fix tok s now p
  assume "jwt_verify toy_jwt tok s now = Inr p"
  then have v: "toy_verify tok s now = Inr p"
    by (simp add: toy_jwt_def)
  then obtain a b c where parts: "split_on CHR ''.'' tok = [a, b, c]"
    by (auto simp: toy_verify_def split: list.splits)
  from v parts have "tok = toy_sign p s (length c) 0 \<and> now < 0 + length c"
    by (auto simp: toy_verify_def split: if_splits)
  then have "tok = jwt_sign toy_jwt p s (length c) 0 \<and> now < 0 + length c"
    by (simp add: toy_jwt_def)
  then show "\<exists>ttl t. tok = jwt_sign toy_jwt p s ttl t \<and> now < t + ttl"
    by blast
qed

subsection \<open>The in-memory storage meets its contracts\<close>

lemma find_append_new:
  "find P xs = None \<Longrightarrow> P x \<Longrightarrow> find P (xs @ [x]) = Some x"
  by (induction xs) (auto split: if_splits)

lemma mem_stores_users: "stores_users mem_storage"
  unfolding stores_users_def
proof (intro allI impI)
  fix st ins u st'
  assume "createUser mem_storage st ins = Inr (u, st')"
  then show "username u = ins_username ins \<and> password u = ins_password ins \<and>
        getUserByUsername mem_storage st' (ins_username ins) = Inr (Some u)"
    by (auto simp: mem_storage_def mem_createUser_def guarded_def Let_def find_append_new
        split: if_splits)
qed

lemma mem_filters_by_company: "filters_by_company mem_storage"
  by (auto simp: filters_by_company_def mem_storage_def guarded_def split: if_splits)

section \<open>Token verification\<close>

lemma verifyToken_result:
  "verifyToken J secret now token =
     Inr (case jwt_verify J token secret now of Inl e \<Rightarrow> None | Inr d \<Rightarrow> Some d)"
  by (simp add: verifyToken_def split: sum.splits)

text \<open>
  Claim C3. \<open>verifyToken\<close> never throws: on every input string it returns a decoded
  payload or \<^verbatim>\<open>null\<close>, and it returns \<^verbatim>\<open>null\<close> whenever the library throws, whatever it
  throws. With a JWT library that meets its contract and accepts only what was signed,
  it returns \<^verbatim>\<open>null\<close> for a token whose expiry has passed, for a token signed with a
  secret other than the process-wide one, for a string that is not three dot-separated
  parts, and for every string, of whatever shape, that is not an unexpired token signed
  with the process-wide secret.
\<close>

theorem verifyToken_never_raises:
  assumes "jwt_contract J" and "jwt_unforgeable J"
  shows "(\<exists>r. verifyToken J secret now token = Inr r) \<and>
         (\<forall>e. jwt_verify J token secret now = Inl e \<longrightarrow> verifyToken J secret now token = Inr None) \<and>
         (\<forall>d. jwt_verify J token secret now = Inr d \<longrightarrow>
            verifyToken J secret now token = Inr (Some d)) \<and>
         (t + ttl \<le> now \<longrightarrow> verifyToken J secret now (jwt_sign J p secret ttl t) = Inr None) \<and>
         (s' \<noteq> secret \<longrightarrow> verifyToken J secret now (jwt_sign J p s' ttl t) = Inr None) \<and>
         (length (split_on CHR ''.'' token) \<noteq> 3 \<longrightarrow> verifyToken J secret now token = Inr None) \<and>
         ((\<forall>p' ttl' t'. now < t' + ttl' \<longrightarrow> token \<noteq> jwt_sign J p' secret ttl' t') \<longrightarrow>
            verifyToken J secret now token = Inr None)"
proof -
  have total: "\<exists>r. verifyToken J secret now token = Inr r"
    by (simp add: verifyToken_result)
  have caught: "\<forall>e. jwt_verify J token secret now = Inl e \<longrightarrow>
      verifyToken J secret now token = Inr None"
    by (simp add: verifyToken_result)
  have decoded: "\<forall>d. jwt_verify J token secret now = Inr d \<longrightarrow>
      verifyToken J secret now token = Inr (Some d)"
    by (simp add: verifyToken_result)
  have expired: "t + ttl \<le> now \<longrightarrow>
      verifyToken J secret now (jwt_sign J p secret ttl t) = Inr None"
    using assms(1) by (simp add: verifyToken_result jwt_contract_def)
  have foreign: "s' \<noteq> secret \<longrightarrow> verifyToken J secret now (jwt_sign J p s' ttl t) = Inr None"
    using assms(1) by (simp add: verifyToken_result jwt_contract_def)
  have shape: "length (split_on CHR ''.'' token) \<noteq> 3 \<longrightarrow>
      verifyToken J secret now token = Inr None"
    using assms(1) by (simp add: verifyToken_result jwt_contract_def)
  have unsigned: "(\<forall>p' ttl' t'. now < t' + ttl' \<longrightarrow> token \<noteq> jwt_sign J p' secret ttl' t') \<longrightarrow>
      verifyToken J secret now token = Inr None"
  proof
    assume never: "\<forall>p' ttl' t'. now < t' + ttl' \<longrightarrow> token \<noteq> jwt_sign J p' secret ttl' t'"
    have "\<forall>d. jwt_verify J token secret now \<noteq> Inr d"
      using assms(2) never unfolding jwt_unforgeable_def by blast
    then show "verifyToken J secret now token = Inr None"
      by (cases "jwt_verify J token secret now") (auto simp: verifyToken_result)
  qed
  from total caught decoded expired foreign shape unsigned show ?thesis
    by (intro conjI)
qed

text \<open>
  On the reference library, under the default secret, one million seconds after a
  seven-day token was issued; and on two strings that were never signed, one of them of
  three parts with the secret in its place.
\<close>

theorem verifyToken_never_raises_witness:
  "(\<exists>r. verifyToken toy_jwt (JWT_SECRET None) 1000000 ''not-a-token'' = Inr r) \<and>
   jwt_verify toy_jwt ''not-a-token'' (JWT_SECRET None) 1000000 = Inl JsonWebTokenError \<and>
   verifyToken toy_jwt (JWT_SECRET None) 1000000
     (jwt_sign toy_jwt \<lparr>userId = 1, payload_username = ''admin''\<rparr> (JWT_SECRET None) JWT_EXPIRES_IN 0)
     = Inr None \<and>
   verifyToken toy_jwt (JWT_SECRET None) 1000000
     (jwt_sign toy_jwt \<lparr>userId = 1, payload_username = ''admin''\<rparr> ''another-secret'' JWT_EXPIRES_IN 0)
     = Inr None \<and>
   verifyToken toy_jwt (JWT_SECRET None) 1000000 ''not-a-token'' = Inr None \<and>
   length (split_on CHR ''.'' ''6b.zz.x'') = 3 \<and>
   verifyToken toy_jwt ''k'' 0 ''6b.zz.x'' = Inr None"
proof -
  let ?p = "\<lparr>userId = 1, payload_username = ''admin''\<rparr>"
  have late: "0 + JWT_EXPIRES_IN \<le> (1000000::nat)"
    by (simp add: JWT_EXPIRES_IN_def)
  have other: "''another-secret'' \<noteq> JWT_SECRET None"
    by (simp add: JWT_SECRET_def)
  have pieces: "length (split_on CHR ''.'' ''not-a-token'') \<noteq> 3"
    "length (split_on CHR ''.'' ''6b.zz.x'') = 3"
    by code_simp+
  have thrown: "jwt_verify toy_jwt ''not-a-token'' (JWT_SECRET None) 1000000 = Inl JsonWebTokenError"
    using toy_jwt_contract pieces(1) unfolding jwt_contract_def by blast
  have refused: "toy_verify ''6b.zz.x'' ''k'' 0 = Inl JsonWebTokenError"
    by code_simp
  have never: "\<forall>p' ttl' t'. (0::nat) < t' + ttl' \<longrightarrow> ''6b.zz.x'' \<noteq> jwt_sign toy_jwt p' ''k'' ttl' t'"
  proof (intro allI impI notI)
    fix p' :: token_payload and ttl' t' :: nat
    assume "0 < t' + ttl'" and "''6b.zz.x'' = jwt_sign toy_jwt p' ''k'' ttl' t'"
    then have "toy_verify ''6b.zz.x'' ''k'' 0 = Inr p'"
      using toy_verify_sign [of p' "''k''" ttl' t' "''k''" 0] by (simp add: toy_jwt_def)
    with refused show False by simp
  qed
  note first = verifyToken_never_raises [OF toy_jwt_contract toy_jwt_unforgeable,
      of "JWT_SECRET None" 1000000 "''not-a-token''" 0 JWT_EXPIRES_IN ?p "''another-secret''"]
  note second = verifyToken_never_raises [OF toy_jwt_contract toy_jwt_unforgeable,
      of "''k''" 0 "''6b.zz.x''" 0 0 ?p "''k''"]
  from second never have garbage: "verifyToken toy_jwt ''k'' 0 ''6b.zz.x'' = Inr None"
    by blast
  from first thrown late other pieces(1) garbage pieces(2) show ?thesis
    by simp
qed

section \<open>Auth middleware\<close>



section \<open>Account service\<close>

lemma loginUser_result:
  "loginUser S J scrypt secret now st uname pw =
     Inr (case getUserByUsername S st uname of
            Inr (Some u) \<Rightarrow>
              (case comparePasswords scrypt pw (password u) of
                 Inr True \<Rightarrow> Some \<lparr>result_user = u, result_token = generateToken J secret now u\<rparr>
               | _ \<Rightarrow> None)
          | _ \<Rightarrow> None)"
  by (simp add: loginUser_def try_login_def split: sum.splits option.splits bool.splits)

lemma registerUser_result:
  "registerUser S J scrypt secret now rand st uname pw =
     Inr (case getUserByUsername S st uname of
            Inr None \<Rightarrow>
              (case hashPassword scrypt rand pw of
                 Inr h \<Rightarrow>
                   (case createUser S st \<lparr>ins_username = uname, ins_password = h\<rparr> of
                      Inr (u, st') \<Rightarrow>
                        (Some \<lparr>result_user = u, result_token = generateToken J secret now u\<rparr>, st')
                    | Inl e \<Rightarrow> (None, st))
               | Inl e \<Rightarrow> (None, st))
          | _ \<Rightarrow> (None, st))"
  by (simp add: registerUser_def try_register_def split: sum.splits option.splits prod.splits)

lemma generateToken_verifies:
  "jwt_contract J \<Longrightarrow> later < now + JWT_EXPIRES_IN \<Longrightarrow>
   verifyToken J secret later (generateToken J secret now u) =
     Inr (Some \<lparr>userId = id_of u, payload_username = username u\<rparr>)"
  by (simp add: verifyToken_result generateToken_def jwt_contract_def)

text \<open>
  Claim C6, as the spec states it, fails: on a stored credential without a separator
  \<open>comparePasswords\<close> does not return \<^verbatim>\<open>false\<close>, it throws the \<^verbatim>\<open>TypeError\<close> of
  \<^verbatim>\<open>scrypt\<close> on an \<^verbatim>\<open>undefined\<close> salt.
\<close>

theorem comparePasswords_malformed_counterexample:
  "comparePasswords (resolving toy_kdf) ''hunter2'' ''c0ffee'' =
     Inl (TypeError ''The salt argument must be of type string'') \<and>
   CHR ''.'' \<notin> set ''c0ffee''"
  by code_simp

text \<open>
  Claim C6, amended. On every stored credential without a separator \<open>comparePasswords\<close>
  throws a \<^verbatim>\<open>TypeError\<close>, for every supplied password; \<open>loginUser\<close>, its only caller,
  catches it and returns \<^verbatim>\<open>null\<close>, so the login fails and no fault escapes.
\<close>

theorem comparePasswords_malformed:
  assumes "CHR ''.'' \<notin> set stored"
  shows "comparePasswords scrypt supplied stored =
           Inl (TypeError ''The salt argument must be of type string'') \<and>
         (getUserByUsername S st uname = Inr (Some u) \<and> password u = stored \<longrightarrow>
            loginUser S J scrypt secret now st uname supplied = Inr None)"
  using assms by (auto simp: comparePasswords_no_salt loginUser_result)

theorem comparePasswords_malformed_witness:
  "CHR ''.'' \<notin> set ''c0ffee'' \<and>
   comparePasswords (resolving toy_kdf) ''hunter2'' ''c0ffee'' =
     Inl (TypeError ''The salt argument must be of type string'') \<and>
   loginUser mem_storage toy_jwt (resolving toy_kdf) ''k'' 0
     (empty_mem\<lparr>users := [\<lparr>id_of = 1, username = ''admin'', password = ''c0ffee''\<rparr>]\<rparr>)
     ''admin'' ''hunter2'' = Inr None"
proof -
  let ?u = "\<lparr>id_of = 1, username = ''admin'', password = ''c0ffee''\<rparr>"
  have nodot: "CHR ''.'' \<notin> set ''c0ffee''" by simp
  have stored: "getUserByUsername mem_storage (empty_mem\<lparr>users := [?u]\<rparr>) ''admin'' = Inr (Some ?u)"
    "password ?u = ''c0ffee''"
    by code_simp+
  from comparePasswords_malformed [OF nodot, of "resolving toy_kdf" "''hunter2''" mem_storage
      "empty_mem\<lparr>users := [?u]\<rparr>" "''admin''" ?u toy_jwt "''k''" 0] stored nodot
  show ?thesis by simp
qed

text \<open>
  Claim C4. \<open>loginUser\<close> returns \<^verbatim>\<open>null\<close> when the username is unknown, and when the key
  derived from the supplied password with the stored salt differs from the stored key
  (also when the stored credential has no salt to derive with).
  When the two keys agree it returns the stored user with a token, and that token
  verifies (within its seven days, with a JWT library that meets its contract) to a
  payload whose username is the user's.
\<close>

theorem loginUser_results:
  assumes "jwt_contract J"
  shows
    "(getUserByUsername S st uname = Inr None \<longrightarrow>
        loginUser S J scrypt secret now st uname pw = Inr None) \<and>
     (getUserByUsername S st uname = Inr (Some u) \<and>
      (\<forall>hashed salt key.
         index (split_on CHR ''.'' (password u)) 0 = Some hashed \<and>
         index (split_on CHR ''.'' (password u)) 1 = Some salt \<and>
         scrypt pw salt 64 = Inr key \<longrightarrow>
         key \<noteq> hex_decode hashed) \<longrightarrow>
        loginUser S J scrypt secret now st uname pw = Inr None) \<and>
     (getUserByUsername S st uname = Inr (Some u) \<and>
      index (split_on CHR ''.'' (password u)) 0 = Some hashed \<and>
      index (split_on CHR ''.'' (password u)) 1 = Some salt \<and>
      scrypt pw salt 64 = Inr (hex_decode hashed) \<longrightarrow>
        loginUser S J scrypt secret now st uname pw =
          Inr (Some \<lparr>result_user = u, result_token = generateToken J secret now u\<rparr>) \<and>
        (later < now + JWT_EXPIRES_IN \<longrightarrow>
           verifyToken J secret later (generateToken J secret now u) =
             Inr (Some \<lparr>userId = id_of u, payload_username = username u\<rparr>)))"
proof -
  let ?parts = "split_on CHR ''.'' (password u)"
  have first: "index ?parts 0 = Some (hd ?parts)"
    using split_on_not_Nil [of "CHR ''.''" "password u"]
    by (cases ?parts) (simp_all add: index_def)
  have differs: "comparePasswords scrypt pw (password u) \<noteq> Inr True"
    if "\<forall>hashed salt key. index ?parts 0 = Some hashed \<and> index ?parts 1 = Some salt \<and>
          scrypt pw salt 64 = Inr key \<longrightarrow> key \<noteq> hex_decode hashed"
    using that first
    by (auto simp: comparePasswords_cases timingSafeEqual_def split: option.splits sum.splits)
  have agrees: "comparePasswords scrypt pw (password u) = Inr True"
    if "index ?parts 0 = Some hashed" "index ?parts 1 = Some salt"
      "scrypt pw salt 64 = Inr (hex_decode hashed)"
    using that first by (simp add: comparePasswords_cases timingSafeEqual_def)
  have rejected: "loginUser S J scrypt secret now st uname pw = Inr None"
    if "getUserByUsername S st uname = Inr (Some u)"
      "comparePasswords scrypt pw (password u) \<noteq> Inr True"
    using that by (simp add: loginUser_result split: sum.splits bool.splits)
  show ?thesis
    using assms differs agrees rejected
    by (auto simp: loginUser_result generateToken_verifies)
qed

text \<open>
  An unknown user, a wrong password and the right password, against a user whose stored
  credential was derived from \<open>s3cret\<close> with salt \<open>ab\<close>.
\<close>

theorem loginUser_results_witness:
  "loginUser mem_storage toy_jwt (resolving toy_kdf) ''k'' 5 empty_mem ''admin'' ''s3cret'' = Inr None \<and>
   loginUser mem_storage toy_jwt (resolving toy_kdf) ''k'' 5
     (empty_mem\<lparr>users := [\<lparr>id_of = 1, username = ''admin'',
        password = toString_hex (toy_kdf ''s3cret'' ''ab'' 64) @ ''.ab''\<rparr>]\<rparr>)
     ''admin'' ''wrong'' = Inr None \<and>
   loginUser mem_storage toy_jwt (resolving toy_kdf) ''k'' 5
     (empty_mem\<lparr>users := [\<lparr>id_of = 1, username = ''admin'',
        password = toString_hex (toy_kdf ''s3cret'' ''ab'' 64) @ ''.ab''\<rparr>]\<rparr>)
     ''admin'' ''s3cret'' =
     Inr (Some \<lparr>result_user = \<lparr>id_of = 1, username = ''admin'',
                    password = toString_hex (toy_kdf ''s3cret'' ''ab'' 64) @ ''.ab''\<rparr>,
                 result_token = generateToken toy_jwt ''k'' 5
                   \<lparr>id_of = 1, username = ''admin'',
                    password = toString_hex (toy_kdf ''s3cret'' ''ab'' 64) @ ''.ab''\<rparr>\<rparr>) \<and>
   verifyToken toy_jwt ''k'' 6
     (generateToken toy_jwt ''k'' 5
        \<lparr>id_of = 1, username = ''admin'',
         password = toString_hex (toy_kdf ''s3cret'' ''ab'' 64) @ ''.ab''\<rparr>) =
     Inr (Some \<lparr>userId = 1, payload_username = ''admin''\<rparr>)"
proof -
  let ?hashed = "toString_hex (toy_kdf ''s3cret'' ''ab'' 64)"
  let ?u = "\<lparr>id_of = 1, username = ''admin'', password = ?hashed @ ''.ab''\<rparr>"
  let ?st = "empty_mem\<lparr>users := [?u]\<rparr>"
  have unknown: "getUserByUsername mem_storage empty_mem ''admin'' = Inr None"
    by code_simp
  have known: "getUserByUsername mem_storage ?st ''admin'' = Inr (Some ?u)"
    by code_simp
  have parts: "index (split_on CHR ''.'' (password ?u)) 0 = Some ?hashed"
    "index (split_on CHR ''.'' (password ?u)) 1 = Some ''ab''"
    by code_simp+
  have wrong: "toy_kdf ''wrong'' ''ab'' 64 \<noteq> hex_decode ?hashed"
    by code_simp
  with parts have differs: "\<forall>hashed salt key.
      index (split_on CHR ''.'' (password ?u)) 0 = Some hashed \<and>
      index (split_on CHR ''.'' (password ?u)) 1 = Some salt \<and>
      resolving toy_kdf ''wrong'' salt 64 = Inr key \<longrightarrow>
      key \<noteq> hex_decode hashed"
    by (auto simp: resolving_def)
  have right: "resolving toy_kdf ''s3cret'' ''ab'' 64 = Inr (hex_decode ?hashed)"
    by code_simp
  have soon: "(6::nat) < 5 + JWT_EXPIRES_IN"
    by (simp add: JWT_EXPIRES_IN_def)
  from unknown loginUser_results [OF toy_jwt_contract, where S = mem_storage and st = empty_mem
      and uname = "''admin''" and scrypt = "resolving toy_kdf" and secret = "''k''" and now = 5
      and pw = "''s3cret''"]
  have a: "loginUser mem_storage toy_jwt (resolving toy_kdf) ''k'' 5 empty_mem ''admin'' ''s3cret'' =
      Inr None"
    by simp
  have b: "loginUser mem_storage toy_jwt (resolving toy_kdf) ''k'' 5 ?st ''admin'' ''wrong'' = Inr None"
    by (rule loginUser_results [OF toy_jwt_contract, where u = ?u, THEN conjunct2, THEN conjunct1,
          THEN mp])
       (intro conjI known differs)
  from known parts right soon loginUser_results [OF toy_jwt_contract, where S = mem_storage
      and st = ?st and uname = "''admin''" and scrypt = "resolving toy_kdf" and secret = "''k''"
      and now = 5 and pw = "''s3cret''" and u = ?u and hashed = ?hashed and salt = "''ab''"
      and later = 6]
  have c: "loginUser mem_storage toy_jwt (resolving toy_kdf) ''k'' 5 ?st ''admin'' ''s3cret'' =
      Inr (Some \<lparr>result_user = ?u, result_token = generateToken toy_jwt ''k'' 5 ?u\<rparr>) \<and>
    verifyToken toy_jwt ''k'' 6 (generateToken toy_jwt ''k'' 5 ?u) =
      Inr (Some \<lparr>userId = id_of ?u, payload_username = username ?u\<rparr>)"
    by blast
  from a b c show ?thesis by simp
qed

text \<open>
  Claim C1. When storage holds no user of that name and accepts the new row, and
  \<^verbatim>\<open>scrypt\<close> derives a key, \<open>registerUser\<close> returns a user and a token; \<open>loginUser\<close> with
  the same credentials on the storage state that registration left returns that user and
  a token, and \<open>verifyToken\<close> accepts this token while it is younger than seven days.
  Non-empty credentials are not needed for this.
\<close>

theorem register_then_login:
  assumes jwt: "jwt_contract J"
    and storage: "stores_users S"
    and fresh: "getUserByUsername S st uname = Inr None"
    and derives: "scrypt pw (toString_hex rand) 64 = Inr key"
    and accepts: "\<And>h. \<exists>r. createUser S st \<lparr>ins_username = uname, ins_password = h\<rparr> = Inr r"
    and soon: "verified < logged + JWT_EXPIRES_IN"
  shows "\<exists>u tok st'.
           registerUser S J scrypt secret registered rand st uname pw =
             Inr (Some \<lparr>result_user = u, result_token = tok\<rparr>, st') \<and>
           (\<exists>tok'.
              loginUser S J scrypt secret logged st' uname pw =
                Inr (Some \<lparr>result_user = u, result_token = tok'\<rparr>) \<and>
              verifyToken J secret verified tok' =
                Inr (Some \<lparr>userId = id_of u, payload_username = uname\<rparr>))"
proof -
  let ?h = "toString_hex key @ CHR ''.'' # toString_hex rand"
  have hashed: "hashPassword scrypt rand pw = Inr ?h"
    using derives by (simp add: hashPassword_cases)
  from accepts [of ?h] obtain u st'
    where created: "createUser S st \<lparr>ins_username = uname, ins_password = ?h\<rparr> = Inr (u, st')"
    by (cases "createUser S st \<lparr>ins_username = uname, ins_password = ?h\<rparr>") auto
  with storage have row: "username u = uname" "password u = ?h"
    and found: "getUserByUsername S st' uname = Inr (Some u)"
    unfolding stores_users_def by fastforce+
  have reg: "registerUser S J scrypt secret registered rand st uname pw =
      Inr (Some \<lparr>result_user = u, result_token = generateToken J secret registered u\<rparr>, st')"
    using fresh hashed created by (simp add: registerUser_result)
  have login: "loginUser S J scrypt secret logged st' uname pw =
      Inr (Some \<lparr>result_user = u, result_token = generateToken J secret logged u\<rparr>)"
    using found row comparePasswords_hashed [of scrypt pw rand key] derives
    by (simp add: loginUser_result)
  have "verifyToken J secret verified (generateToken J secret logged u) =
      Inr (Some \<lparr>userId = id_of u, payload_username = uname\<rparr>)"
    using generateToken_verifies [OF jwt soon, of secret u] row by simp
  with reg login show ?thesis by blast
qed

text \<open>Registration at time 100, login at 200, verification at 300, on empty storage.\<close>

theorem register_then_login_witness:
  "\<exists>u tok st'.
     registerUser mem_storage toy_jwt (resolving toy_kdf) (JWT_SECRET None) 100
         [1, 2, 3, 4, 5, 6, 7, 8, 9, 10, 11, 12, 13, 14, 15, 16]
         empty_mem ''admin'' ''s3cret'' =
       Inr (Some \<lparr>result_user = u, result_token = tok\<rparr>, st') \<and>
     (\<exists>tok'.
        loginUser mem_storage toy_jwt (resolving toy_kdf) (JWT_SECRET None) 200 st' ''admin'' ''s3cret'' =
          Inr (Some \<lparr>result_user = u, result_token = tok'\<rparr>) \<and>
        verifyToken toy_jwt (JWT_SECRET None) 300 tok' =
          Inr (Some \<lparr>userId = id_of u, payload_username = ''admin''\<rparr>))"
proof -
  have fresh: "getUserByUsername mem_storage empty_mem ''admin'' = Inr None"
    by code_simp
  have derives: "resolving toy_kdf ''s3cret''
      (toString_hex [1, 2, 3, 4, 5, 6, 7, 8, 9, 10, 11, 12, 13, 14, 15, 16]) 64 =
    Inr (toy_kdf ''s3cret'' (toString_hex [1, 2, 3, 4, 5, 6, 7, 8, 9, 10, 11, 12, 13, 14, 15, 16]) 64)"
    by (simp add: resolving_def)
  have accepts: "\<exists>r. createUser mem_storage empty_mem \<lparr>ins_username = ''admin'', ins_password = h\<rparr> = Inr r"
    for h
    by (simp add: mem_storage_def mem_createUser_def empty_mem_def Let_def)
  have soon: "(300::nat) < 200 + JWT_EXPIRES_IN"
    by (simp add: JWT_EXPIRES_IN_def)
  show ?thesis
    by (rule register_then_login [where scrypt = "resolving toy_kdf" and pw = "''s3cret''"
          and rand = "[1, 2, 3, 4, 5, 6, 7, 8, 9, 10, 11, 12, 13, 14, 15, 16]",
          OF toy_jwt_contract mem_stores_users fresh derives accepts soon])
qed

text \<open>
  Claim C5, as the spec states it, fails: with storage down, \<open>loginUser\<close> returns exactly
  what it returns for an unknown username on a working storage.
\<close>

theorem fault_versus_rejection_counterexample:
  "getUserByUsername mem_storage (empty_mem\<lparr>online := False\<rparr>) ''admin'' = Inl unreachable \<and>
   getUserByUsername mem_storage empty_mem ''admin'' = Inr None \<and>
   loginUser mem_storage toy_jwt (resolving toy_kdf) ''k'' 0 (empty_mem\<lparr>online := False\<rparr>)
       ''admin'' ''pw'' =
     loginUser mem_storage toy_jwt (resolving toy_kdf) ''k'' 0 empty_mem ''admin'' ''pw'' \<and>
   loginUser mem_storage toy_jwt (resolving toy_kdf) ''k'' 0 empty_mem ''admin'' ''pw'' = Inr None"
  by code_simp

text \<open>
  Claim C5, amended. A fault of the storage collaborator or of the hasher inside
  \<open>loginUser\<close> or \<open>registerUser\<close> is caught and surfaced as \<^verbatim>\<open>null\<close>, the same result as
  invalid credentials (an unknown user, a password that does not match) or a duplicate
  username; the routes answer every \<^verbatim>\<open>null\<close> of \<open>loginUser\<close> with status 401 and the
  message "Invalid credentials", and every \<^verbatim>\<open>null\<close> of \<open>registerUser\<close> with status 400
  and the message "Username already exists".
\<close>

theorem faults_surface_as_null:
  "(getUserByUsername S st uname = Inl e \<longrightarrow>
      loginUser S J scrypt secret now st uname pw = Inr None \<and>
      (\<exists>st'. registerUser S J scrypt secret now rand st uname pw = Inr (None, st'))) \<and>
   (getUserByUsername S st uname = Inr (Some u) \<and>
    comparePasswords scrypt pw (password u) = Inl e \<longrightarrow>
      loginUser S J scrypt secret now st uname pw = Inr None) \<and>
   (getUserByUsername S st uname = Inr (Some u) \<and>
    index (split_on CHR ''.'' (password u)) 1 = Some salt \<and> scrypt pw salt 64 = Inl e \<longrightarrow>
      comparePasswords scrypt pw (password u) = Inl e \<and>
      loginUser S J scrypt secret now st uname pw = Inr None) \<and>
   (getUserByUsername S st uname = Inr None \<and> scrypt pw (toString_hex rand) 64 = Inl e \<longrightarrow>
      hashPassword scrypt rand pw = Inl e \<and>
      (\<exists>st'. registerUser S J scrypt secret now rand st uname pw = Inr (None, st'))) \<and>
   (getUserByUsername S st uname = Inr None \<and> hashPassword scrypt rand pw = Inr h \<and>
    createUser S st \<lparr>ins_username = uname, ins_password = h\<rparr> = Inl e \<longrightarrow>
      (\<exists>st'. registerUser S J scrypt secret now rand st uname pw = Inr (None, st'))) \<and>
   (getUserByUsername S st uname = Inr None \<longrightarrow>
      loginUser S J scrypt secret now st uname pw = Inr None) \<and>
   (getUserByUsername S st uname = Inr (Some u) \<and>
    comparePasswords scrypt pw (password u) = Inr False \<longrightarrow>
      loginUser S J scrypt secret now st uname pw = Inr None) \<and>
   (getUserByUsername S st uname = Inr (Some u) \<longrightarrow>
      (\<exists>st'. registerUser S J scrypt secret now rand st uname pw = Inr (None, st'))) \<and>
   (truthy (cred_username creds) = Some uname \<and> truthy (cred_password creds) = Some pw \<and>
    loginUser (srv_storage srv) (srv_jwt srv) (srv_scrypt srv) (srv_secret srv) (clock_seconds amb)
      st uname pw = Inr None \<longrightarrow>
      login_handler srv amb st creds =
        \<lparr>status = 401, headers = [],
         body = JsonBody (JObj [(''message'', JStr ''Invalid credentials'')])\<rparr>) \<and>
   (truthy (cred_username creds) = Some uname \<and> truthy (cred_password creds) = Some pw \<and>
    (\<exists>st'. registerUser (srv_storage srv) (srv_jwt srv) (srv_scrypt srv) (srv_secret srv)
       (clock_seconds amb) (random_bytes amb) st uname pw = Inr (None, st')) \<longrightarrow>
      fst (register_handler srv amb st creds) =
        \<lparr>status = 400, headers = [],
         body = JsonBody (JObj [(''message'', JStr ''Username already exists'')])\<rparr>)"
proof -
  have salted: "comparePasswords scrypt pw (password u) = Inl e"
    if "index (split_on CHR ''.'' (password u)) 1 = Some salt" "scrypt pw salt 64 = Inl e"
    using that by (simp add: comparePasswords_cases)
  have unhashed: "hashPassword scrypt rand pw = Inl e"
    if "scrypt pw (toString_hex rand) 64 = Inl e"
    using that by (simp add: hashPassword_cases)
  show ?thesis
    using salted unhashed
    by (auto simp: loginUser_result registerUser_result login_handler_def register_handler_def
        message_reply_def json_reply_def)
qed

text \<open>
  Login and registration while the in-memory storage is down, and on a working storage
  with a \<^verbatim>\<open>scrypt\<close> that rejects.
\<close>

theorem faults_surface_as_null_witness:
  "loginUser mem_storage toy_jwt (resolving toy_kdf) (JWT_SECRET None) 0 (empty_mem\<lparr>online := False\<rparr>)
     ''admin'' ''s3cret'' = Inr None \<and>
   (\<exists>st'. registerUser mem_storage toy_jwt (resolving toy_kdf) (JWT_SECRET None) 0 []
      (empty_mem\<lparr>online := False\<rparr>) ''admin'' ''s3cret'' = Inr (None, st')) \<and>
   hashPassword (\<lambda>pw salt keylen. Inl (Error ''memory limit exceeded'')) [] ''s3cret'' =
     Inl (Error ''memory limit exceeded'') \<and>
   (\<exists>st'. registerUser mem_storage toy_jwt (\<lambda>pw salt keylen. Inl (Error ''memory limit exceeded''))
      (JWT_SECRET None) 0 [] empty_mem ''admin'' ''s3cret'' = Inr (None, st')) \<and>
   login_handler mem_server
     \<lparr>clock_seconds = 0, clock_iso = ''1970-01-01T00:00:00.000Z'', process_uptime = 0, random_bytes = []\<rparr>
     (empty_mem\<lparr>online := False\<rparr>)
     \<lparr>cred_username = Some ''admin'', cred_password = Some ''s3cret''\<rparr> =
     \<lparr>status = 401, headers = [],
      body = JsonBody (JObj [(''message'', JStr ''Invalid credentials'')])\<rparr> \<and>
   fst (register_handler mem_server
     \<lparr>clock_seconds = 0, clock_iso = ''1970-01-01T00:00:00.000Z'', process_uptime = 0, random_bytes = []\<rparr>
     (empty_mem\<lparr>online := False\<rparr>)
     \<lparr>cred_username = Some ''admin'', cred_password = Some ''s3cret''\<rparr>) =
     \<lparr>status = 400, headers = [],
      body = JsonBody (JObj [(''message'', JStr ''Username already exists'')])\<rparr>"
proof -
  let ?off = "empty_mem\<lparr>online := False\<rparr>"
  let ?amb = "\<lparr>clock_seconds = 0, clock_iso = ''1970-01-01T00:00:00.000Z'', process_uptime = 0,
               random_bytes = []\<rparr>"
  let ?creds = "\<lparr>cred_username = Some ''admin'', cred_password = Some ''s3cret''\<rparr>"
  let ?rejecting = "\<lambda>pw salt keylen. Inl (Error ''memory limit exceeded'') :: fault + byte list"
  have down: "getUserByUsername mem_storage ?off ''admin'' = Inl unreachable"
    by code_simp
  have fresh: "getUserByUsername mem_storage empty_mem ''admin'' = Inr None"
    by code_simp
  have rejects: "?rejecting ''s3cret'' (toString_hex []) 64 = Inl (Error ''memory limit exceeded'')"
    by simp
  have creds: "truthy (cred_username ?creds) = Some ''admin''"
    "truthy (cred_password ?creds) = Some ''s3cret''"
    by code_simp+
  have parts: "srv_storage mem_server = mem_storage" "srv_jwt mem_server = toy_jwt"
    "srv_scrypt mem_server = resolving toy_kdf" "srv_secret mem_server = JWT_SECRET None"
    "clock_seconds ?amb = 0" "random_bytes ?amb = []"
    by (simp_all add: mem_server_def)
  note inst = faults_surface_as_null [where S = mem_storage and st = ?off and uname = "''admin''"
      and e = unreachable and J = toy_jwt and scrypt = "resolving toy_kdf" and secret = "JWT_SECRET None"
      and now = 0 and pw = "''s3cret''" and rand = "[]" and srv = mem_server and amb = ?amb
      and creds = ?creds]
  note hashing = faults_surface_as_null [where S = mem_storage and st = empty_mem
      and uname = "''admin''" and e = "Error ''memory limit exceeded''" and J = toy_jwt
      and scrypt = ?rejecting and secret = "JWT_SECRET None" and now = 0 and pw = "''s3cret''"
      and rand = "[]"]
  from down inst
  have fn: "loginUser mem_storage toy_jwt (resolving toy_kdf) (JWT_SECRET None) 0 ?off ''admin'' ''s3cret'' =
       Inr None"
    "\<exists>st'. registerUser mem_storage toy_jwt (resolving toy_kdf) (JWT_SECRET None) 0 [] ?off
       ''admin'' ''s3cret'' = Inr (None, st')"
    by blast+
  from fresh rejects hashing
  have hashed: "hashPassword ?rejecting [] ''s3cret'' = Inl (Error ''memory limit exceeded'')"
    "\<exists>st'. registerUser mem_storage toy_jwt ?rejecting (JWT_SECRET None) 0 [] empty_mem
       ''admin'' ''s3cret'' = Inr (None, st')"
    by blast+
  from fn creds inst
  have routes: "login_handler mem_server ?amb ?off ?creds =
       \<lparr>status = 401, headers = [],
        body = JsonBody (JObj [(''message'', JStr ''Invalid credentials'')])\<rparr>"
    "fst (register_handler mem_server ?amb ?off ?creds) =
       \<lparr>status = 400, headers = [],
        body = JsonBody (JObj [(''message'', JStr ''Username already exists'')])\<rparr>"
    unfolding parts by blast+
  from fn hashed routes show ?thesis by (intro conjI)
qed

section \<open>Routes behind the middleware\<close>

lemma authenticated_Next:
  "authenticateToken (srv_storage srv) (srv_jwt srv) (srv_secret srv) (clock_seconds amb) st hdr =
     Inr (Next u) \<Longrightarrow>
   authenticated srv amb st hdr handler = Inr (handler u)"
  by (simp add: authenticated_def)

lemma admin_authenticated:
  "authenticateToken (srv_storage mem_server) (srv_jwt mem_server) (srv_secret mem_server)
     (clock_seconds sample_ambient) sample_mem (authorization \<lparr>authorization = admin_header, route = r\<rparr>) =
   Inr (Next admin)"
proof -
  have "authenticateToken (srv_storage mem_server) (srv_jwt mem_server) (srv_secret mem_server)
     (clock_seconds sample_ambient) sample_mem admin_header = Inr (Next admin)"
    by code_simp
  then show ?thesis by simp
qed

subsection \<open>Identifier path parameters\<close>








subsection \<open>CSV export\<close>

lemma export_route:
  assumes "authenticateToken (srv_storage srv) (srv_jwt srv) (srv_secret srv) (clock_seconds amb)
             st (authorization req) = Inr (Next u)"
    and "route req = Export param"
  shows "handle srv amb st req = Inr (export_handler srv st param, st)"
  using assms by (simp add: handle_def authenticated_Next)

lemma valid_header_pieces:
  "list_all valid_header_char ''text/csv''"
  "list_all valid_header_char ''attachment; filename=''"
  "list_all valid_header_char ''submissions''"
  "list_all valid_header_char ''.csv''"
  "valid_header_char CHR ''_''"
  "valid_header_char (CHR 0x22)"
  "list_all valid_header_char ''all''"
  by code_simp+

lemma disposition_valid:
  "list_all valid_header_char (''attachment; filename='' @ quoted (export_filename param)) \<longleftrightarrow>
     (case truthy param of None \<Rightarrow> True | Some c \<Rightarrow> list_all valid_header_char c)"
  using valid_header_pieces
  by (simp add: export_filename_def quoted_def split: option.splits)

lemma setHeader_content_type:
  "setHeader [] ''Content-Type'' ''text/csv'' = Inr [(''Content-Type'', ''text/csv'')]"
  by code_simp

lemma setHeader_disposition:
  "setHeader hs ''Content-Disposition''
     (''attachment; filename='' @ quoted (export_filename param)) =
   (if (case truthy param of None \<Rightarrow> True | Some c \<Rightarrow> list_all valid_header_char c)
    then Inr (hs @ [(''Content-Disposition'',
                     ''attachment; filename='' @ quoted (export_filename param))])
    else Inl (TypeError (''Invalid character in header content ['' @
                         quoted ''Content-Disposition'' @ '']'')))"
  by (simp only: setHeader_def disposition_valid)

lemma export_handler_cases:
  "export_handler srv st param =
     (case export_submissions (srv_storage srv) st param of
        Inl e \<Rightarrow>
          \<lparr>status = 500, headers = [],
           body = JsonBody (JObj [(''message'', JStr ''An error occurred while exporting submissions'')])\<rparr>
      | Inr subs \<Rightarrow>
          if (case truthy param of None \<Rightarrow> True | Some c \<Rightarrow> list_all valid_header_char c)
          then \<lparr>status = 200,
                headers = [(''Content-Type'', ''text/csv''),
                           (''Content-Disposition'',
                            ''attachment; filename='' @ quoted (export_filename param))],
                body = TextBody (csvContent (srv_formatDate srv) subs)\<rparr>
          else \<lparr>status = 500, headers = [(''Content-Type'', ''text/csv'')],
                body = JsonBody
                  (JObj [(''message'', JStr ''An error occurred while exporting submissions'')])\<rparr>)"
  unfolding export_handler_def setHeader_content_type setHeader_disposition
  by (simp add: message_reply_def json_reply_def Let_def split: sum.splits)

lemma export_handler_all:
  "truthy param = None \<or> param = Some ''all'' \<Longrightarrow>
   getAllSubmissions (srv_storage srv) st = Inr every \<Longrightarrow>
   export_handler srv st param =
     \<lparr>status = 200,
      headers = [(''Content-Type'', ''text/csv''),
                 (''Content-Disposition'', ''attachment; filename='' @ quoted (export_filename param))],
      body = TextBody (csvContent (srv_formatDate srv) every)\<rparr>"
  using valid_header_pieces(7)
  by (auto simp: export_handler_cases export_submissions_def truthy_def split: option.splits)

lemma export_handler_company:
  "param = Some c \<Longrightarrow> c \<noteq> [] \<Longrightarrow> c \<noteq> ''all'' \<Longrightarrow> list_all valid_header_char c \<Longrightarrow>
   getSubmissionsByCompanyCode (srv_storage srv) st c = Inr subs \<Longrightarrow>
   export_handler srv st param =
     \<lparr>status = 200,
      headers = [(''Content-Type'', ''text/csv''),
                 (''Content-Disposition'', ''attachment; filename='' @ quoted (export_filename param))],
      body = TextBody (csvContent (srv_formatDate srv) subs)\<rparr>"
  by (simp add: export_handler_cases export_submissions_def truthy_def)

lemma export_handler_refused:
  "param = Some c \<Longrightarrow> \<not> list_all valid_header_char c \<Longrightarrow>
   getSubmissionsByCompanyCode (srv_storage srv) st c = Inr subs \<Longrightarrow>
   export_handler srv st param =
     \<lparr>status = 500, headers = [(''Content-Type'', ''text/csv'')],
      body = JsonBody (JObj [(''message'', JStr ''An error occurred while exporting submissions'')])\<rparr>"
  using valid_header_pieces(7)
  by (auto simp: export_handler_cases export_submissions_def truthy_def)

lemma export_filename_cases:
  "export_filename None = ''submissions.csv''"
  "export_filename (Some []) = ''submissions.csv''"
  "c \<noteq> [] \<Longrightarrow> export_filename (Some c) = ''submissions_'' @ c @ ''.csv''"
  by (simp_all add: export_filename_def truthy_def)

lemma csvRow_fields:
  "csvRow fmt sub =
     quoted (name sub) @ '','' @ quoted (email sub) @ '','' @
     quoted (case companyCode sub of None \<Rightarrow> [] | Some c \<Rightarrow> c) @ '','' @
     quoted (case coreValues sub of Some vs \<Rightarrow> join '', '' vs | None \<Rightarrow> ''No values'') @ '','' @
     quoted (fmt (createdAt sub))"
  by (simp add: csvRow_def truthy_def split: option.splits)

text \<open>
  Claim C8, as the spec states it, fails: with the query parameter \<open>companyCode=all\<close>
  present, submissions of other company codes are exported; and an empty parameter
  gives the file name \<open>submissions.csv\<close>.
\<close>

theorem csv_export_counterexample:
  "handle mem_server sample_ambient sample_mem
     \<lparr>authorization = admin_header, route = Export (Some ''all'')\<rparr> =
     Inr (\<lparr>status = 200,
           headers = [(''Content-Type'', ''text/csv''),
                      (''Content-Disposition'',
                       ''attachment; filename='' @ quoted ''submissions_all.csv'')],
           body = TextBody (csvContent (srv_formatDate mem_server) [ada, bob])\<rparr>, sample_mem) \<and>
   companyCode ada \<noteq> Some ''all'' \<and> companyCode bob \<noteq> Some ''all'' \<and>
   export_filename (Some '''') \<noteq> ''submissions_.csv''"
  by code_simp

text \<open>
  Claim C8, amended. For an authenticated export request on a storage that answers, and
  a company code made of characters that a header value may hold, the response is 200
  with Content-Type \<open>text/csv\<close>, a Content-Disposition attachment header and a body made
  of the header line and one row per exported submission, the rows separated by
  newlines; a row is five fields in double quotes separated by commas: name, email,
  company code (empty when there is none), the core values joined with ", " ("No values"
  when they are not a list) and the formatted date. With a company code that is present,
  not empty and not \<open>all\<close>, the submissions storage returns for it (those with exactly
  that code) are exported under \<open>submissions_<code>.csv\<close>; with the parameter omitted or
  empty all submissions are exported under \<open>submissions.csv\<close>; with \<open>all\<close> all
  submissions are exported under \<open>submissions_all.csv\<close>. A company code with a character
  that a header value may not hold (a control character other than the tab) is answered
  with status 500 and the message "An error occurred while exporting submissions",
  on a response whose Content-Type is already \<open>text/csv\<close>.
\<close>

theorem csv_export:
  assumes auth: "authenticateToken (srv_storage srv) (srv_jwt srv) (srv_secret srv)
                   (clock_seconds amb) st (authorization req) = Inr (Next u)"
    and route: "route req = Export param"
    and storage: "filters_by_company (srv_storage srv)"
    and every: "getAllSubmissions (srv_storage srv) st = Inr every"
  shows
    "(param = Some c \<and> c \<noteq> [] \<and> c \<noteq> ''all'' \<and> list_all valid_header_char c \<and>
      getSubmissionsByCompanyCode (srv_storage srv) st c = Inr subs \<longrightarrow>
        subs = filter (\<lambda>sub. companyCode sub = Some c) every \<and>
        handle srv amb st req =
          Inr (\<lparr>status = 200,
                headers = [(''Content-Type'', ''text/csv''),
                           (''Content-Disposition'',
                            ''attachment; filename='' @ quoted (''submissions_'' @ c @ ''.csv''))],
                body = TextBody (csvContent (srv_formatDate srv) subs)\<rparr>, st)) \<and>
     (param = Some c \<and> \<not> list_all valid_header_char c \<and>
      getSubmissionsByCompanyCode (srv_storage srv) st c = Inr subs \<longrightarrow>
        handle srv amb st req =
          Inr (\<lparr>status = 500, headers = [(''Content-Type'', ''text/csv'')],
                body = JsonBody
                  (JObj [(''message'', JStr ''An error occurred while exporting submissions'')])\<rparr>,
               st)) \<and>
     (param = None \<or> param = Some [] \<longrightarrow>
        handle srv amb st req =
          Inr (\<lparr>status = 200,
                headers = [(''Content-Type'', ''text/csv''),
                           (''Content-Disposition'',
                            ''attachment; filename='' @ quoted ''submissions.csv'')],
                body = TextBody (csvContent (srv_formatDate srv) every)\<rparr>, st)) \<and>
     (param = Some ''all'' \<longrightarrow>
        handle srv amb st req =
          Inr (\<lparr>status = 200,
                headers = [(''Content-Type'', ''text/csv''),
                           (''Content-Disposition'',
                            ''attachment; filename='' @ quoted ''submissions_all.csv'')],
                body = TextBody (csvContent (srv_formatDate srv) every)\<rparr>, st)) \<and>
     csvContent fmt rows =
       ''Name,Email,Company Code,Core Values,Date Submitted'' @ ''\<newline>'' @
       join ''\<newline>'' (map (csvRow fmt) rows) \<and>
     csvRow fmt sub =
       quoted (name sub) @ '','' @ quoted (email sub) @ '','' @
       quoted (case companyCode sub of None \<Rightarrow> [] | Some code \<Rightarrow> code) @ '','' @
       quoted (case coreValues sub of Some vs \<Rightarrow> join '', '' vs | None \<Rightarrow> ''No values'') @ '','' @
       quoted (fmt (createdAt sub)) \<and>
     quoted s = [CHR 0x22] @ s @ [CHR 0x22]"
proof -
  note h = export_route [OF auth route]
  have company: "subs = filter (\<lambda>sub. companyCode sub = Some c) every \<and>
      handle srv amb st req =
          Inr (\<lparr>status = 200,
                headers = [(''Content-Type'', ''text/csv''),
                           (''Content-Disposition'',
                            ''attachment; filename='' @ quoted (''submissions_'' @ c @ ''.csv''))],
                body = TextBody (csvContent (srv_formatDate srv) subs)\<rparr>, st)"
    if "param = Some c" "c \<noteq> []" "c \<noteq> ''all''" "list_all valid_header_char c"
      "getSubmissionsByCompanyCode (srv_storage srv) st c = Inr subs"
  proof
    from storage that(5) every show "subs = filter (\<lambda>sub. companyCode sub = Some c) every"
      unfolding filters_by_company_def by blast
    from that show "handle srv amb st req =
          Inr (\<lparr>status = 200,
                headers = [(''Content-Type'', ''text/csv''),
                           (''Content-Disposition'',
                            ''attachment; filename='' @ quoted (''submissions_'' @ c @ ''.csv''))],
                body = TextBody (csvContent (srv_formatDate srv) subs)\<rparr>, st)"
      by (simp add: h export_handler_company export_filename_cases)
  qed
  have refused: "handle srv amb st req =
          Inr (\<lparr>status = 500, headers = [(''Content-Type'', ''text/csv'')],
                body = JsonBody
                  (JObj [(''message'', JStr ''An error occurred while exporting submissions'')])\<rparr>,
               st)"
    if "param = Some c" "\<not> list_all valid_header_char c"
      "getSubmissionsByCompanyCode (srv_storage srv) st c = Inr subs"
    using that by (simp add: h export_handler_refused)
  have omitted: "handle srv amb st req =
          Inr (\<lparr>status = 200,
                headers = [(''Content-Type'', ''text/csv''),
                           (''Content-Disposition'',
                            ''attachment; filename='' @ quoted ''submissions.csv'')],
                body = TextBody (csvContent (srv_formatDate srv) every)\<rparr>, st)"
    if "param = None \<or> param = Some []"
    using that every export_handler_all [of param srv st every]
    by (auto simp: h export_filename_cases truthy_def)
  have everything: "handle srv amb st req =
          Inr (\<lparr>status = 200,
                headers = [(''Content-Type'', ''text/csv''),
                           (''Content-Disposition'',
                            ''attachment; filename='' @ quoted ''submissions_all.csv'')],
                body = TextBody (csvContent (srv_formatDate srv) every)\<rparr>, st)"
    if "param = Some ''all''"
    using that every export_handler_all [of param srv st every]
    by (simp add: h export_filename_cases)
  have content: "csvContent fmt rows =
       ''Name,Email,Company Code,Core Values,Date Submitted'' @ ''\<newline>'' @
       join ''\<newline>'' (map (csvRow fmt) rows)"
    by (simp add: csvContent_def csvHeader_def)
  from company refused omitted everything content csvRow_fields [of fmt sub] show ?thesis
    by (simp add: quoted_def)
qed

text \<open>
  The two submissions of the spec's example, exported whole and for the code \<open>acme\<close>, and
  an export for a code with a line break in it.
\<close>

theorem csv_export_witness:
  \<open>handle mem_server sample_ambient sample_mem \<lparr>authorization = admin_header, route = Export None\<rparr> =
     Inr (\<lparr>status = 200,
           headers = [(''Content-Type'', ''text/csv''),
                      (''Content-Disposition'', ''attachment; filename="submissions.csv"'')],
           body = TextBody
             (''Name,Email,Company Code,Core Values,Date Submitted\<newline>'' @
              ''"Ada","ada@example.com","acme","Integrity, Courage","May 1, 2024"\<newline>'' @
              ''"Bob","bob@example.com","","Honesty","May 2, 2024"'')\<rparr>, sample_mem) \<and>
   handle mem_server sample_ambient sample_mem
       \<lparr>authorization = admin_header, route = Export (Some ''acme'')\<rparr> =
     Inr (\<lparr>status = 200,
           headers = [(''Content-Type'', ''text/csv''),
                      (''Content-Disposition'', ''attachment; filename="submissions_acme.csv"'')],
           body = TextBody
             (''Name,Email,Company Code,Core Values,Date Submitted\<newline>'' @
              ''"Ada","ada@example.com","acme","Integrity, Courage","May 1, 2024"'')\<rparr>, sample_mem) \<and>
   handle mem_server sample_ambient sample_mem
       \<lparr>authorization = admin_header, route = Export (Some ''a\<newline>b'')\<rparr> =
     Inr (\<lparr>status = 500, headers = [(''Content-Type'', ''text/csv'')],
           body = JsonBody
             (JObj [(''message'', JStr ''An error occurred while exporting submissions'')])\<rparr>,
          sample_mem)\<close>
proof -
  let ?all = "\<lparr>authorization = admin_header, route = Export None\<rparr>"
  let ?acme = "\<lparr>authorization = admin_header, route = Export (Some ''acme'')\<rparr>"
  let ?broken = "\<lparr>authorization = admin_header, route = Export (Some ''a\<newline>b'')\<rparr>"
  have every: "getAllSubmissions (srv_storage mem_server) sample_mem = Inr [ada, bob]"
    by code_simp
  have acme: "getSubmissionsByCompanyCode (srv_storage mem_server) sample_mem ''acme'' = Inr [ada]"
    "list_all valid_header_char ''acme''"
    by code_simp+
  have broken: "getSubmissionsByCompanyCode (srv_storage mem_server) sample_mem ''a\<newline>b'' = Inr []"
    "\<not> list_all valid_header_char ''a\<newline>b''"
    by code_simp+
  have storage: "filters_by_company (srv_storage mem_server)"
    using mem_filters_by_company by (simp add: mem_server_def)
  have text_all: \<open>csvContent (srv_formatDate mem_server) [ada, bob] =
      ''Name,Email,Company Code,Core Values,Date Submitted\<newline>'' @
      ''"Ada","ada@example.com","acme","Integrity, Courage","May 1, 2024"\<newline>'' @
      ''"Bob","bob@example.com","","Honesty","May 2, 2024"''\<close>
    by code_simp
  have text_acme: \<open>csvContent (srv_formatDate mem_server) [ada] =
      ''Name,Email,Company Code,Core Values,Date Submitted\<newline>'' @
      ''"Ada","ada@example.com","acme","Integrity, Courage","May 1, 2024"''\<close>
    by code_simp
  have names: \<open>''attachment; filename='' @ quoted ''submissions.csv'' =
      ''attachment; filename="submissions.csv"''\<close>
    \<open>''attachment; filename='' @ quoted (''submissions_'' @ ''acme'' @ ''.csv'') =
      ''attachment; filename="submissions_acme.csv"''\<close>
    by code_simp+
  have a: "handle mem_server sample_ambient sample_mem ?all =
      Inr (\<lparr>status = 200,
            headers = [(''Content-Type'', ''text/csv''),
                       (''Content-Disposition'', ''attachment; filename='' @ quoted ''submissions.csv'')],
            body = TextBody (csvContent (srv_formatDate mem_server) [ada, bob])\<rparr>, sample_mem)"
    using csv_export [where req = ?all and param = None, OF admin_authenticated _ storage every]
    by simp
  have b: "handle mem_server sample_ambient sample_mem ?acme =
      Inr (\<lparr>status = 200,
            headers = [(''Content-Type'', ''text/csv''),
                       (''Content-Disposition'',
                        ''attachment; filename='' @ quoted (''submissions_'' @ ''acme'' @ ''.csv''))],
            body = TextBody (csvContent (srv_formatDate mem_server) [ada])\<rparr>, sample_mem)"
    using csv_export [where req = ?acme and param = "Some ''acme''" and c = "''acme''"
        and subs = "[ada]", OF admin_authenticated _ storage every] acme
    by simp
  have c: "handle mem_server sample_ambient sample_mem ?broken =
      Inr (\<lparr>status = 500, headers = [(''Content-Type'', ''text/csv'')],
            body = JsonBody
              (JObj [(''message'', JStr ''An error occurred while exporting submissions'')])\<rparr>,
           sample_mem)"
    using csv_export [where req = ?broken and param = "Some ''a\<newline>b''" and c = "''a\<newline>b''"
        and subs = "[]", OF admin_authenticated _ storage every] broken
    by simp
  from a b c show ?thesis
    unfolding text_all text_acme names by simp
qed

text \<open>
  Claim C10. An authenticated export request with \<open>companyCode=all\<close> makes the storage
  call of a request without the parameter and sends the same status and body, but names
  the attachment \<open>submissions_all.csv\<close> where the other names it \<open>submissions.csv\<close>.
\<close>

theorem export_all_is_unfiltered:
  assumes auth: "authenticateToken (srv_storage srv) (srv_jwt srv) (srv_secret srv)
                   (clock_seconds amb) st (authorization req) = Inr (Next u)"
    and route: "route req = Export (Some ''all'')"
  shows
    "export_submissions (srv_storage srv) st (Some ''all'') =
       export_submissions (srv_storage srv) st None \<and>
     (getAllSubmissions (srv_storage srv) st = Inr every \<longrightarrow>
        handle srv amb st req =
          Inr (\<lparr>status = 200,
                headers = [(''Content-Type'', ''text/csv''),
                           (''Content-Disposition'',
                            ''attachment; filename='' @ quoted ''submissions_all.csv'')],
                body = TextBody (csvContent (srv_formatDate srv) every)\<rparr>, st) \<and>
        handle srv amb st (req\<lparr>route := Export None\<rparr>) =
          Inr (\<lparr>status = 200,
                headers = [(''Content-Type'', ''text/csv''),
                           (''Content-Disposition'',
                            ''attachment; filename='' @ quoted ''submissions.csv'')],
                body = TextBody (csvContent (srv_formatDate srv) every)\<rparr>, st)) \<and>
     (getAllSubmissions (srv_storage srv) st = Inl e \<longrightarrow>
        handle srv amb st req = handle srv amb st (req\<lparr>route := Export None\<rparr>))"
proof -
  have auth': "authenticateToken (srv_storage srv) (srv_jwt srv) (srv_secret srv)
      (clock_seconds amb) st (authorization (req\<lparr>route := Export None\<rparr>)) = Inr (Next u)"
    using auth by simp
  have all: "handle srv amb st req = Inr (export_handler srv st (Some ''all''), st)"
    by (rule export_route [OF auth route])
  have none: "handle srv amb st (req\<lparr>route := Export None\<rparr>) = Inr (export_handler srv st None, st)"
    by (rule export_route [OF auth']) simp
  have same: "export_submissions (srv_storage srv) st (Some ''all'') =
      export_submissions (srv_storage srv) st None"
    by (simp add: export_submissions_def truthy_def)
  have failed: "export_handler srv st param =
      message_reply 500 ''An error occurred while exporting submissions''"
    if "getAllSubmissions (srv_storage srv) st = Inl e" "truthy param = None \<or> param = Some ''all''"
    for param
    using that
    by (auto simp: export_handler_cases export_submissions_def truthy_def message_reply_def
        json_reply_def split: option.splits)
  show ?thesis
    using same export_handler_all [of "Some ''all''" srv st every]
      export_handler_all [of None srv st every] failed [of "Some ''all''"] failed [of None]
    by (simp add: all none export_filename_cases truthy_def)
qed

text \<open>The sample storage exported with \<open>companyCode=all\<close> and with no parameter.\<close>

theorem export_all_is_unfiltered_witness:
  \<open>handle mem_server sample_ambient sample_mem
       \<lparr>authorization = admin_header, route = Export (Some ''all'')\<rparr> =
     Inr (\<lparr>status = 200,
           headers = [(''Content-Type'', ''text/csv''),
                      (''Content-Disposition'', ''attachment; filename="submissions_all.csv"'')],
           body = TextBody (csvContent (srv_formatDate mem_server) [ada, bob])\<rparr>, sample_mem) \<and>
   handle mem_server sample_ambient sample_mem \<lparr>authorization = admin_header, route = Export None\<rparr> =
     Inr (\<lparr>status = 200,
           headers = [(''Content-Type'', ''text/csv''),
                      (''Content-Disposition'', ''attachment; filename="submissions.csv"'')],
           body = TextBody (csvContent (srv_formatDate mem_server) [ada, bob])\<rparr>, sample_mem)\<close>
proof -
  let ?req = "\<lparr>authorization = admin_header, route = Export (Some ''all'')\<rparr>"
  have every: "getAllSubmissions (srv_storage mem_server) sample_mem = Inr [ada, bob]"
    by code_simp
  have names: \<open>''attachment; filename='' @ quoted ''submissions.csv'' =
      ''attachment; filename="submissions.csv"''\<close>
    \<open>''attachment; filename='' @ quoted ''submissions_all.csv'' =
      ''attachment; filename="submissions_all.csv"''\<close>
    by code_simp+
  have omitted: "?req\<lparr>route := Export None\<rparr> = \<lparr>authorization = admin_header, route = Export None\<rparr>"
    by simp
  from export_all_is_unfiltered [where req = ?req and every = "[ada, bob]", OF admin_authenticated]
    every
  show ?thesis
    unfolding names omitted by simp
qed

section \<open>Responses and the faults of the collaborators\<close>

lemma relabel_server_simps:
  "srv_storage (relabel_server sc m srv) = relabel_storage sc m (srv_storage srv)"
  "srv_sendEmail (relabel_server sc m srv) = (\<lambda>msg. relabel sc m (srv_sendEmail srv msg))"
  "srv_jwt (relabel_server sc m srv) = srv_jwt srv"
  "srv_secret (relabel_server sc m srv) = srv_secret srv"
  "srv_scrypt (relabel_server sc m srv) = srv_scrypt srv"
  "srv_parse_submission (relabel_server sc m srv) = srv_parse_submission srv"
  "srv_parse_value (relabel_server sc m srv) = srv_parse_value srv"
  "srv_fromZodError (relabel_server sc m srv) = srv_fromZodError srv"
  "srv_extractFirstName (relabel_server sc m srv) = srv_extractFirstName srv"
  "srv_base64 (relabel_server sc m srv) = srv_base64 srv"
  "srv_formatDate (relabel_server sc m srv) = srv_formatDate srv"
  by (simp_all add: relabel_server_def)

lemma relabel_storage_simps:
  "getUser (relabel_storage sc m S) st i = relabel sc m (getUser S st i)"
  "getUserByUsername (relabel_storage sc m S) st n = relabel sc m (getUserByUsername S st n)"
  "createUser (relabel_storage sc m S) st iu = relabel sc m (createUser S st iu)"
  "getAllLeadershipValues (relabel_storage sc m S) st = relabel sc m (getAllLeadershipValues S st)"
  "getLeadershipValueById (relabel_storage sc m S) st k = relabel sc m (getLeadershipValueById S st k)"
  "createLeadershipValue (relabel_storage sc m S) st iv = relabel sc m (createLeadershipValue S st iv)"
  "updateLeadershipValue (relabel_storage sc m S) st k iv =
     relabel sc m (updateLeadershipValue S st k iv)"
  "deleteLeadershipValue (relabel_storage sc m S) st k = relabel sc m (deleteLeadershipValue S st k)"
  "createSubmission (relabel_storage sc m S) st isub = relabel sc m (createSubmission S st isub)"
  "getAllSubmissions (relabel_storage sc m S) st = relabel sc m (getAllSubmissions S st)"
  "getSubmissionsByCompanyCode (relabel_storage sc m S) st c =
     relabel sc m (getSubmissionsByCompanyCode S st c)"
  "getUniqueCompanyCodes (relabel_storage sc m S) st = relabel sc m (getUniqueCompanyCodes S st)"
  by (simp_all add: relabel_storage_def)

lemma validation_catch_relabelled:
  "relabel EveryFaultButZodError m r = Inl e' \<Longrightarrow>
   \<exists>e. r = Inl e \<and> validation_catch srv a b e' = validation_catch srv a b e"
  by (auto simp: relabel_def validation_catch_def split: sum.splits fault.splits)

lemma relabel_Inr: "relabel sc m r = Inr v \<longleftrightarrow> r = Inr v"
  by (auto simp: relabel_def split: sum.splits fault.splits)

lemma relabel_Inl: "relabel sc m r = Inl e' \<Longrightarrow> \<exists>e. r = Inl e"
  by (auto simp: relabel_def split: sum.splits fault.splits)

lemma validation_catch_server:
  "validation_catch (relabel_server sc m srv) a b e = validation_catch srv a b e"
  by (simp add: validation_catch_def relabel_server_simps split: fault.splits)

lemma authenticateToken_relabel:
  "authenticateToken (relabel_storage sc m S) J secret now st hdr =
     authenticateToken S J secret now st hdr"
  by (auto simp: authenticateToken_def relabel_storage_simps relabel_Inr dest: relabel_Inl
      split: option.splits sum.splits)

lemma loginUser_relabel:
  "loginUser (relabel_storage sc m S) J scrypt secret now st uname pw =
     loginUser S J scrypt secret now st uname pw"
  by (auto simp: loginUser_result relabel_storage_simps relabel_Inr dest: relabel_Inl
      split: sum.splits option.splits)

lemma registerUser_relabel:
  "registerUser (relabel_storage sc m S) J scrypt secret now rand st uname pw =
     registerUser S J scrypt secret now rand st uname pw"
  by (auto simp: registerUser_result relabel_storage_simps relabel_Inr dest: relabel_Inl
      split: sum.splits option.splits)

lemma authenticated_relabel:
  "authenticated (relabel_server sc m srv) amb st hdr handler = authenticated srv amb st hdr handler"
  by (simp add: authenticated_def relabel_server_simps authenticateToken_relabel)

lemma login_handler_relabel:
  "login_handler (relabel_server sc m srv) amb st creds = login_handler srv amb st creds"
  by (simp add: login_handler_def relabel_server_simps loginUser_relabel split: option.splits)

lemma register_handler_relabel:
  "register_handler (relabel_server sc m srv) amb st creds = register_handler srv amb st creds"
  by (simp add: register_handler_def relabel_server_simps registerUser_relabel split: option.splits)

lemma create_submission_handler_relabel:
  "create_submission_handler (relabel_server EveryFaultButZodError m srv) st b =
     create_submission_handler srv st b"
  by (auto simp: create_submission_handler_def relabel_server_simps relabel_storage_simps
      validation_catch_server relabel_Inr Let_def dest: validation_catch_relabelled split: sum.splits)

lemma list_values_handler_relabel:
  "list_values_handler (relabel_server sc m srv) st = list_values_handler srv st"
  by (auto simp: list_values_handler_def relabel_server_simps relabel_storage_simps relabel_Inr
      dest: relabel_Inl split: sum.splits)

lemma create_value_handler_relabel:
  "create_value_handler (relabel_server EveryFaultButZodError m srv) st b =
     create_value_handler srv st b"
  by (auto simp: create_value_handler_def relabel_server_simps relabel_storage_simps
      validation_catch_server relabel_Inr Let_def dest: validation_catch_relabelled split: sum.splits)

lemma get_value_handler_relabel:
  "get_value_handler (relabel_server sc m srv) st i = get_value_handler srv st i"
  by (auto simp: get_value_handler_def relabel_server_simps relabel_storage_simps relabel_Inr
      Let_def dest: relabel_Inl split: sum.splits option.splits)

lemma update_value_handler_relabel:
  "update_value_handler (relabel_server EveryFaultButZodError m srv) st i b =
     update_value_handler srv st i b"
  by (auto simp: update_value_handler_def relabel_server_simps relabel_storage_simps
      validation_catch_server relabel_Inr Let_def dest: validation_catch_relabelled
      split: sum.splits option.splits)

lemma delete_value_handler_relabel:
  "delete_value_handler (relabel_server sc m srv) st i = delete_value_handler srv st i"
  by (auto simp: delete_value_handler_def relabel_server_simps relabel_storage_simps relabel_Inr
      Let_def dest: relabel_Inl split: sum.splits option.splits)

lemma list_submissions_handler_relabel:
  "list_submissions_handler (relabel_server sc m srv) st = list_submissions_handler srv st"
  by (auto simp: list_submissions_handler_def relabel_server_simps relabel_storage_simps relabel_Inr
      dest: relabel_Inl split: sum.splits)

lemma submissions_by_company_handler_relabel:
  "submissions_by_company_handler (relabel_server sc m srv) st c =
     submissions_by_company_handler srv st c"
  by (auto simp: submissions_by_company_handler_def relabel_server_simps relabel_storage_simps
      relabel_Inr dest: relabel_Inl split: sum.splits)

lemma company_codes_handler_relabel:
  "company_codes_handler (relabel_server sc m srv) st = company_codes_handler srv st"
  by (auto simp: company_codes_handler_def relabel_server_simps relabel_storage_simps relabel_Inr
      dest: relabel_Inl split: sum.splits)

lemma export_submissions_relabel:
  "export_submissions (relabel_storage sc m S) st c = relabel sc m (export_submissions S st c)"
  by (simp add: export_submissions_def relabel_storage_simps split: option.splits)

lemma export_handler_relabel:
  "export_handler (relabel_server sc m srv) st c = export_handler srv st c"
  by (auto simp: export_handler_cases relabel_server_simps export_submissions_relabel relabel_Inr
      dest: relabel_Inl split: sum.splits)

lemma pdf_email_message_relabel:
  "pdf_email_message (relabel_server sc m srv) n e cvs buf = pdf_email_message srv n e cvs buf"
  by (simp add: pdf_email_message_def relabel_server_simps)

lemma send_pdf_email_handler_relabel:
  "send_pdf_email_handler (relabel_server sc m srv) b = send_pdf_email_handler srv b"
  by (auto simp: send_pdf_email_handler_def relabel_server_simps pdf_email_message_relabel
      relabel_Inr dest: relabel_Inl split: sum.splits option.splits prod.splits)

lemmas handler_relabel =
  authenticated_relabel login_handler_relabel register_handler_relabel
  list_values_handler_relabel get_value_handler_relabel delete_value_handler_relabel
  list_submissions_handler_relabel submissions_by_company_handler_relabel
  company_codes_handler_relabel export_handler_relabel send_pdf_email_handler_relabel

lemmas validating_handler_relabel =
  authenticated_relabel create_submission_handler_relabel create_value_handler_relabel
  update_value_handler_relabel

lemma validation_catch_ZodError:
  "validation_catch srv invalid generic (ZodError z) =
     \<lparr>status = 400, headers = [],
      body = JsonBody (JObj [(''message'', JStr invalid),
                             (''errors'', JStr (srv_fromZodError srv z))])\<rparr>"
  by (simp add: validation_catch_def json_reply_def)

text \<open>
  Claim C9, as the spec states it, fails: with storage down, the health route returns
  the message of the storage error in its \<open>error\<close> field; and when the e-mail
  collaborator reports a failure, the PDF route returns the reported error as \<open>details\<close>.
\<close>

theorem internal_error_leak_counterexample:
  "getAllLeadershipValues (srv_storage mem_server) (sample_mem\<lparr>online := False\<rparr>) =
     Inl (Error ''connect ECONNREFUSED 127.0.0.1:5432'') \<and>
   handle mem_server sample_ambient (sample_mem\<lparr>online := False\<rparr>)
       \<lparr>authorization = None, route = Health\<rparr> =
     Inr (\<lparr>status = 503, headers = [],
           body = JsonBody
             (JObj [(''status'', JStr ''unhealthy''),
                    (''timestamp'', JStr ''2024-05-01T12:00:00.000Z''),
                    (''uptime'', JNum 42),
                    (''database'', JStr ''disconnected''),
                    (''error'', JStr ''connect ECONNREFUSED 127.0.0.1:5432'')])\<rparr>,
          sample_mem\<lparr>online := False\<rparr>) \<and>
   handle
       (mem_server\<lparr>srv_sendEmail :=
          (\<lambda>m. Inr \<lparr>success = False, send_error = Some (JStr ''535 Authentication failed'')\<rparr>)\<rparr>)
       sample_ambient sample_mem
       \<lparr>authorization = None,
        route = SendPdfEmail
          \<lparr>pdfBase64 = Some ''data:application/pdf;base64,JVBERi0='',
           userInfo = Some \<lparr>info_name = Some ''Ada Lovelace'', info_email = Some ''ada@example.com''\<rparr>,
           pdf_coreValues = Some [\<lparr>cv_value = ''Courage'', cv_description = ''Acting despite fear''\<rparr>]\<rparr>\<rparr> =
     Inr (\<lparr>status = 500, headers = [],
           body = JsonBody
             (JObj [(''error'', JStr ''Failed to send email''),
                    (''details'', JStr ''535 Authentication failed'')])\<rparr>,
          sample_mem)"
  by code_simp

text \<open>
  Claim C9, amended. For every request to a route other than \<^verbatim>\<open>GET /api/health\<close> and the
  three routes that validate a body (\<^verbatim>\<open>POST /api/submissions\<close>,
  \<^verbatim>\<open>POST /api/leadership-values\<close>, \<^verbatim>\<open>PUT /api/leadership-values/:id\<close>), the response and
  the storage state left behind do not depend on what the storage or the e-mail
  collaborator threw: replacing every such fault by another one changes neither. On the
  three validating routes the same holds for every fault that is not a \<^verbatim>\<open>ZodError\<close>; a
  \<^verbatim>\<open>ZodError\<close> thrown by storage is answered there with status 400 and the error's
  message, as formatted by \<^verbatim>\<open>fromZodError\<close>, in the \<open>errors\<close> field. The health route
  answers a fault of storage with status 503 and the fault's message in the \<open>error\<close>
  field, and the PDF route answers a failure that the e-mail collaborator reports in its
  result with status 500 and the reported error in \<open>details\<close>.
\<close>

theorem responses_hide_faults:
  "(route req \<noteq> Health \<and> \<not> validating (route req) \<longrightarrow>
      handle (relabel_server EveryFault m srv) amb st req = handle srv amb st req) \<and>
   (validating (route req) \<longrightarrow>
      handle (relabel_server EveryFaultButZodError m srv) amb st req = handle srv amb st req) \<and>
   (route req = CreateSubmission submissionJson \<and>
    srv_parse_submission srv submissionJson = Inr submissionData \<and>
    createSubmission (srv_storage srv) st submissionData = Inl (ZodError z) \<longrightarrow>
      handle srv amb st req =
        Inr (\<lparr>status = 400, headers = [],
                body = JsonBody (JObj [(''message'', JStr ''Invalid submission data''),
                                       (''errors'', JStr (srv_fromZodError srv z))])\<rparr>, st)) \<and>
   (authenticateToken (srv_storage srv) (srv_jwt srv) (srv_secret srv) (clock_seconds amb) st
      (authorization req) = Inr (Next u) \<and>
    route req = CreateLeadershipValue valueJson \<and>
    srv_parse_value srv valueJson = Inr valueData \<and>
    createLeadershipValue (srv_storage srv) st valueData = Inl (ZodError z) \<longrightarrow>
      handle srv amb st req =
        Inr (\<lparr>status = 400, headers = [],
                body = JsonBody (JObj [(''message'', JStr ''Invalid leadership value data''),
                                       (''errors'', JStr (srv_fromZodError srv z))])\<rparr>, st)) \<and>
   (authenticateToken (srv_storage srv) (srv_jwt srv) (srv_secret srv) (clock_seconds amb) st
      (authorization req) = Inr (Next u) \<and>
    route req = UpdateLeadershipValue idParam valueJson \<and> parseInt idParam \<noteq> NaN \<and>
    getLeadershipValueById (srv_storage srv) st (parseInt idParam) = Inl (ZodError z) \<longrightarrow>
      handle srv amb st req =
        Inr (\<lparr>status = 400, headers = [],
                body = JsonBody (JObj [(''message'', JStr ''Invalid leadership value data''),
                                       (''errors'', JStr (srv_fromZodError srv z))])\<rparr>, st)) \<and>
   (authenticateToken (srv_storage srv) (srv_jwt srv) (srv_secret srv) (clock_seconds amb) st
      (authorization req) = Inr (Next u) \<and>
    route req = UpdateLeadershipValue idParam valueJson \<and> parseInt idParam \<noteq> NaN \<and>
    getLeadershipValueById (srv_storage srv) st (parseInt idParam) = Inr (Some existingValue) \<and>
    srv_parse_value srv valueJson = Inr valueData \<and>
    updateLeadershipValue (srv_storage srv) st (parseInt idParam) valueData = Inl (ZodError z) \<longrightarrow>
      handle srv amb st req =
        Inr (\<lparr>status = 400, headers = [],
                body = JsonBody (JObj [(''message'', JStr ''Invalid leadership value data''),
                                       (''errors'', JStr (srv_fromZodError srv z))])\<rparr>, st)) \<and>
   (route req = Health \<and> getAllLeadershipValues (srv_storage srv) st = Inl e \<longrightarrow>
      handle srv amb st req =
        Inr (\<lparr>status = 503, headers = [],
              body = JsonBody
                (JObj [(''status'', JStr ''unhealthy''),
                       (''timestamp'', JStr (clock_iso amb)),
                       (''uptime'', JNum (process_uptime amb)),
                       (''database'', JStr ''disconnected''),
                       (''error'', JStr (if instanceof_Error e then error_message e
                                         else ''Unknown error''))])\<rparr>, st)) \<and>
   (route req = SendPdfEmail reqBody \<and>
    truthy (pdfBase64 reqBody) = Some dataUrl \<and> userInfo reqBody = Some info \<and>
    pdf_coreValues reqBody = Some cvs \<and>
    truthy (info_email info) = Some uemail \<and> truthy (info_name info) = Some uname \<and>
    pdf_buffer (srv_base64 srv) dataUrl = Inr pdfBuffer \<and>
    srv_sendEmail srv (pdf_email_message srv uname uemail cvs pdfBuffer) = Inr result \<and>
    \<not> success result \<and> send_error result = Some details \<longrightarrow>
      handle srv amb st req =
        Inr (\<lparr>status = 500, headers = [],
              body = JsonBody
                (JObj [(''error'', JStr ''Failed to send email''), (''details'', details)])\<rparr>, st))"
proof -
  have plain: "route req \<noteq> Health \<and> \<not> validating (route req) \<longrightarrow>
      handle (relabel_server EveryFault m srv) amb st req = handle srv amb st req"
    by (cases "route req") (simp_all add: handle_def handler_relabel validating_def)
  have checked: "validating (route req) \<longrightarrow>
      handle (relabel_server EveryFaultButZodError m srv) amb st req = handle srv amb st req"
    by (cases "route req") (simp_all add: handle_def validating_handler_relabel validating_def)
  have submission: "route req = CreateSubmission submissionJson \<and>
    srv_parse_submission srv submissionJson = Inr submissionData \<and>
    createSubmission (srv_storage srv) st submissionData = Inl (ZodError z) \<longrightarrow>
      handle srv amb st req =
        Inr (\<lparr>status = 400, headers = [],
                body = JsonBody (JObj [(''message'', JStr ''Invalid submission data''),
                                       (''errors'', JStr (srv_fromZodError srv z))])\<rparr>, st)"
    by (simp add: handle_def create_submission_handler_def validation_catch_ZodError)
  have created: "authenticateToken (srv_storage srv) (srv_jwt srv) (srv_secret srv) (clock_seconds amb) st
      (authorization req) = Inr (Next u) \<and>
    route req = CreateLeadershipValue valueJson \<and>
    srv_parse_value srv valueJson = Inr valueData \<and>
    createLeadershipValue (srv_storage srv) st valueData = Inl (ZodError z) \<longrightarrow>
      handle srv amb st req =
        Inr (\<lparr>status = 400, headers = [],
                body = JsonBody (JObj [(''message'', JStr ''Invalid leadership value data''),
                                       (''errors'', JStr (srv_fromZodError srv z))])\<rparr>, st)"
    by (simp add: handle_def authenticated_Next create_value_handler_def validation_catch_ZodError)
  have looked_up: "authenticateToken (srv_storage srv) (srv_jwt srv) (srv_secret srv) (clock_seconds amb) st
      (authorization req) = Inr (Next u) \<and>
    route req = UpdateLeadershipValue idParam valueJson \<and> parseInt idParam \<noteq> NaN \<and>
    getLeadershipValueById (srv_storage srv) st (parseInt idParam) = Inl (ZodError z) \<longrightarrow>
      handle srv amb st req =
        Inr (\<lparr>status = 400, headers = [],
                body = JsonBody (JObj [(''message'', JStr ''Invalid leadership value data''),
                                       (''errors'', JStr (srv_fromZodError srv z))])\<rparr>, st)"
    by (simp add: handle_def authenticated_Next update_value_handler_def validation_catch_ZodError
        isNaN_def Let_def)
  have updated: "authenticateToken (srv_storage srv) (srv_jwt srv) (srv_secret srv) (clock_seconds amb) st
      (authorization req) = Inr (Next u) \<and>
    route req = UpdateLeadershipValue idParam valueJson \<and> parseInt idParam \<noteq> NaN \<and>
    getLeadershipValueById (srv_storage srv) st (parseInt idParam) = Inr (Some existingValue) \<and>
    srv_parse_value srv valueJson = Inr valueData \<and>
    updateLeadershipValue (srv_storage srv) st (parseInt idParam) valueData = Inl (ZodError z) \<longrightarrow>
      handle srv amb st req =
        Inr (\<lparr>status = 400, headers = [],
                body = JsonBody (JObj [(''message'', JStr ''Invalid leadership value data''),
                                       (''errors'', JStr (srv_fromZodError srv z))])\<rparr>, st)"
    by (simp add: handle_def authenticated_Next update_value_handler_def validation_catch_ZodError
        isNaN_def Let_def)
  have health: "route req = Health \<and> getAllLeadershipValues (srv_storage srv) st = Inl e \<longrightarrow>
      handle srv amb st req =
        Inr (\<lparr>status = 503, headers = [],
              body = JsonBody
                (JObj [(''status'', JStr ''unhealthy''),
                       (''timestamp'', JStr (clock_iso amb)),
                       (''uptime'', JNum (process_uptime amb)),
                       (''database'', JStr ''disconnected''),
                       (''error'', JStr (if instanceof_Error e then error_message e
                                         else ''Unknown error''))])\<rparr>, st)"
    by (simp add: handle_def health_handler_def json_reply_def)
  have pdf: "route req = SendPdfEmail reqBody \<and>
    truthy (pdfBase64 reqBody) = Some dataUrl \<and> userInfo reqBody = Some info \<and>
    pdf_coreValues reqBody = Some cvs \<and>
    truthy (info_email info) = Some uemail \<and> truthy (info_name info) = Some uname \<and>
    pdf_buffer (srv_base64 srv) dataUrl = Inr pdfBuffer \<and>
    srv_sendEmail srv (pdf_email_message srv uname uemail cvs pdfBuffer) = Inr result \<and>
    \<not> success result \<and> send_error result = Some details \<longrightarrow>
      handle srv amb st req =
        Inr (\<lparr>status = 500, headers = [],
              body = JsonBody
                (JObj [(''error'', JStr ''Failed to send email''), (''details'', details)])\<rparr>, st)"
    by (simp add: handle_def send_pdf_email_handler_def json_reply_def)
  from plain checked submission created looked_up updated health pdf show ?thesis
    by (intro conjI)
qed

text \<open>
  Listing the leadership values while storage is down, with the fault as it is and
  replaced; and a submission on which storage throws a \<^verbatim>\<open>ZodError\<close>.
\<close>

theorem responses_hide_faults_witness:
  "getAllLeadershipValues (srv_storage mem_server) (sample_mem\<lparr>online := False\<rparr>) =
     Inl (Error ''connect ECONNREFUSED 127.0.0.1:5432'') \<and>
   handle mem_server sample_ambient (sample_mem\<lparr>online := False\<rparr>)
       \<lparr>authorization = None, route = ListLeadershipValues\<rparr> =
     Inr (\<lparr>status = 500, headers = [],
           body = JsonBody
             (JObj [(''message'', JStr ''An error occurred while fetching leadership values'')])\<rparr>,
          sample_mem\<lparr>online := False\<rparr>) \<and>
   handle (relabel_server EveryFault ''disk full'' mem_server) sample_ambient
       (sample_mem\<lparr>online := False\<rparr>) \<lparr>authorization = None, route = ListLeadershipValues\<rparr> =
     Inr (\<lparr>status = 500, headers = [],
           body = JsonBody
             (JObj [(''message'', JStr ''An error occurred while fetching leadership values'')])\<rparr>,
          sample_mem\<lparr>online := False\<rparr>) \<and>
   handle
       (mem_server
          \<lparr>srv_storage := mem_storage\<lparr>createSubmission := (\<lambda>st ins. Inl (ZodError ''row 7''))\<rparr>,
           srv_parse_submission :=
             (\<lambda>j. Inr \<lparr>ins_name = ''Ada'', ins_email = ''ada@example.com'',
                        ins_companyCode = None, ins_coreValues = []\<rparr>)\<rparr>)
       sample_ambient sample_mem \<lparr>authorization = None, route = CreateSubmission JNull\<rparr> =
     Inr (\<lparr>status = 400, headers = [],
           body = JsonBody (JObj [(''message'', JStr ''Invalid submission data''),
                                  (''errors'', JStr ''Validation error: row 7'')])\<rparr>,
          sample_mem)"
proof -
  let ?req = "\<lparr>authorization = None, route = ListLeadershipValues\<rparr>"
  let ?off = "sample_mem\<lparr>online := False\<rparr>"
  let ?ins = "\<lparr>ins_name = ''Ada'', ins_email = ''ada@example.com'',
               ins_companyCode = None, ins_coreValues = []\<rparr>"
  let ?srv = "mem_server
          \<lparr>srv_storage := mem_storage\<lparr>createSubmission := (\<lambda>st ins. Inl (ZodError ''row 7''))\<rparr>,
           srv_parse_submission := (\<lambda>j. Inr ?ins)\<rparr>"
  let ?post = "\<lparr>authorization = None, route = CreateSubmission JNull\<rparr>"
  have down: "getAllLeadershipValues (srv_storage mem_server) ?off =
      Inl (Error ''connect ECONNREFUSED 127.0.0.1:5432'')"
    by code_simp
  have plain: "handle mem_server sample_ambient ?off ?req =
      Inr (\<lparr>status = 500, headers = [],
            body = JsonBody
              (JObj [(''message'', JStr ''An error occurred while fetching leadership values'')])\<rparr>,
           ?off)"
    by code_simp
  have "route ?req \<noteq> Health \<and> \<not> validating (route ?req)"
    by (simp add: validating_def)
  with responses_hide_faults [where req = ?req and m = "''disk full''" and srv = mem_server
      and amb = sample_ambient and st = ?off, THEN conjunct1]
  have same: "handle (relabel_server EveryFault ''disk full'' mem_server) sample_ambient ?off ?req =
      handle mem_server sample_ambient ?off ?req"
    by (rule mp)
  have thrown: "route ?post = CreateSubmission JNull \<and>
      srv_parse_submission ?srv JNull = Inr ?ins \<and>
      createSubmission (srv_storage ?srv) sample_mem ?ins = Inl (ZodError ''row 7'')"
    by simp
  have message: "srv_fromZodError ?srv ''row 7'' = ''Validation error: row 7''"
    by (simp add: mem_server_def)
  from responses_hide_faults [where req = ?post and srv = ?srv and amb = sample_ambient
      and st = sample_mem and submissionJson = JNull and submissionData = ?ins and z = "''row 7''",
      THEN conjunct2, THEN conjunct2, THEN conjunct1, THEN mp, OF thrown]
  have zod: "handle ?srv sample_ambient sample_mem ?post =
      Inr (\<lparr>status = 400, headers = [],
            body = JsonBody (JObj [(''message'', JStr ''Invalid submission data''),
                                   (''errors'', JStr ''Validation error: row 7'')])\<rparr>,
           sample_mem)"
    unfolding message .
  from down plain same zod show ?thesis by simp
qed

end
